theory Spec2Isabelle
  imports Complex_Main
begin

section \<open>pygaarst.raster: GeoTIFF access, Landsat bands and scenes\<close>

text \<open>
  A shallow embedding of \<^verbatim>\<open>src/pygaarst/raster.py\<close>. Objects are records, exceptions are
  values of the type \<open>error\<close> (the result of a fallible call is \<open>error + 'a\<close>, \<open>Inl\<close> the
  exception), the log, the files on disk and the allocation of objects are an explicit
  state (\<open>world\<close>) that every effectful function takes and returns.

  The dictionary literal \<^verbatim>\<open>NPDTYPE2GDALTYPECODE\<close> of \<^verbatim>\<open>GeoTIFF.clone\<close> lacks the comma between
  its \<^verbatim>\<open>"float32"\<close> and \<^verbatim>\<open>"float64"\<close> entries (source line 107), so the module as written is
  rejected by the Python parser. The embedding reads the table with that comma in place;
  everything else follows the source text.
\<close>

subsection \<open>Python strings\<close>

text \<open>
  Strings are byte strings; \<^verbatim>\<open>str.lower\<close> and \<^verbatim>\<open>str.upper\<close> change the ASCII letters only.
\<close>

definition lower_char :: "char \<Rightarrow> char" where
  "lower_char c =
     (let n = (of_char c :: nat) in if 65 \<le> n \<and> n \<le> 90 then char_of (n + 32) else c)"

definition upper_char :: "char \<Rightarrow> char" where
  "upper_char c =
     (let n = (of_char c :: nat) in if 97 \<le> n \<and> n \<le> 122 then char_of (n - 32) else c)"

definition lower :: "string \<Rightarrow> string" where
  "lower s = map lower_char s"

definition upper :: "string \<Rightarrow> string" where
  "upper s = map upper_char s"

text \<open>\<^verbatim>\<open>s.startswith(p)\<close> and \<^verbatim>\<open>s.endswith(p)\<close>.\<close>

definition startswith :: "string \<Rightarrow> string \<Rightarrow> bool" where
  "startswith s p = (take (length p) s = p)"

definition endswith :: "string \<Rightarrow> string \<Rightarrow> bool" where
  "endswith s p = (length p \<le> length s \<and> drop (length s - length p) s = p)"

text \<open>
  \<^verbatim>\<open>s.partition(sep)\<close>: the text before the first occurrence of \<open>sep\<close>, \<open>sep\<close>, the text
  after it; \<open>(s, '', '')\<close> when \<open>sep\<close> does not occur. (Python raises ValueError on an empty
  separator; the source only ever passes \<^verbatim>\<open>'band'\<close>.)
\<close>

fun partition_from :: "string \<Rightarrow> string \<Rightarrow> string \<Rightarrow> string \<times> string \<times> string" where
  "partition_from sep acc [] = (rev acc, [], [])"
| "partition_from sep acc (c # cs) =
     (if take (length sep) (c # cs) = sep then (rev acc, sep, drop (length sep) (c # cs))
      else partition_from sep (c # acc) cs)"

definition partition_str :: "string \<Rightarrow> string \<Rightarrow> string \<times> string \<times> string" where
  "partition_str s sep = partition_from sep [] s"

text \<open>\<^verbatim>\<open>s.replace(c, t)\<close> for a one-character \<open>c\<close>: every occurrence is replaced.\<close>

definition replace_char :: "string \<Rightarrow> char \<Rightarrow> string \<Rightarrow> string" where
  "replace_char s c t = concat (map (\<lambda>x. if x = c then t else [x]) s)"

text \<open>\<^verbatim>\<open>sep.join(xs)\<close>.\<close>

fun join :: "string \<Rightarrow> string list \<Rightarrow> string" where
  "join sep [] = []"
| "join sep [x] = x"
| "join sep (x # y # ys) = x @ sep @ join sep (y # ys)"

text \<open>\<^verbatim>\<open>s.rfind(c)\<close> for a one-character \<open>c\<close>: the last index of \<open>c\<close>, or \<open>-1\<close>.\<close>

definition rfind :: "string \<Rightarrow> char \<Rightarrow> int" where
  "rfind s c =
     (if c \<in> set s then int (length s - 1 - length (takeWhile (\<lambda>x. x \<noteq> c) (rev s))) else - 1)"

definition rstrip :: "string \<Rightarrow> char \<Rightarrow> string" where
  "rstrip s c = rev (dropWhile (\<lambda>x. x = c) (rev s))"

text \<open>\<^verbatim>\<open>"%s" % n\<close> for a natural number: its decimal digits.\<close>

fun str_nat :: "nat \<Rightarrow> string" where
  "str_nat n = (if n < 10 then [char_of (48 + n)] else str_nat (n div 10) @ [char_of (48 + n mod 10)])"

declare str_nat.simps [simp del]

subsection \<open>os.path (POSIX)\<close>

text \<open>\<^verbatim>\<open>os.path.split\<close>: the path up to the last slash and the component after it.\<close>

definition path_split :: "string \<Rightarrow> string \<times> string" where
  "path_split p =
     (let i = nat (rfind p (CHR ''/'') + 1);
          head = take i p;
          tail = drop i p
      in (if head \<noteq> [] \<and> head \<noteq> replicate (length head) (CHR ''/'')
          then rstrip head (CHR ''/'') else head, tail))"

text \<open>
  \<^verbatim>\<open>os.path.splitext\<close>: the extension starts at the last dot of the last component, unless
  only dots precede it there.
\<close>

definition splitext :: "string \<Rightarrow> string \<times> string" where
  "splitext p =
     (let sepIndex = rfind p (CHR ''/'');
          dotIndex = rfind p (CHR ''.'')
      in if dotIndex > sepIndex \<and>
            list_ex (\<lambda>c. c \<noteq> CHR ''.'')
              (take (nat (dotIndex - (sepIndex + 1))) (drop (nat (sepIndex + 1)) p))
         then (take (nat dotIndex) p, drop (nat dotIndex) p)
         else (p, []))"

text \<open>\<^verbatim>\<open>os.path.join(a, b)\<close>.\<close>

definition path_join :: "string \<Rightarrow> string \<Rightarrow> string" where
  "path_join a b =
     (if startswith b ''/'' then b
      else if a = [] \<or> endswith a ''/'' then a @ b
      else a @ ''/'' @ b)"

subsection \<open>Exceptions and the log\<close>

datatype error =
    PygaarstRasterError string
  | KeyError string
  | AttributeError string
  | TypeError string
  | ValueError string
  | IndexError string
  | RuntimeError string

text \<open>\<^verbatim>\<open>str(e)\<close>: the message; a KeyError prints the \<^verbatim>\<open>repr\<close> of its key.\<close>

fun error_str :: "error \<Rightarrow> string" where
  "error_str (PygaarstRasterError m) = m"
| "error_str (KeyError k) = [CHR 0x27] @ k @ [CHR 0x27]"
| "error_str (AttributeError m) = m"
| "error_str (TypeError m) = m"
| "error_str (ValueError m) = m"
| "error_str (IndexError m) = m"
| "error_str (RuntimeError m) = m"

datatype level = DEBUG | INFO | WARNING | ERROR | CRITICAL

type_synonym log_entry = "level \<times> string"

subsection \<open>The raster I/O provider (GDAL) and numpy arrays\<close>

text \<open>
  An array is its shape, the name of its element type and its samples in row-major order.
  Samples are kept as real numbers: the code under study only moves them and hands them to
  \<^verbatim>\<open>landsatutils\<close>.
\<close>

record ndarray =
  shape :: "nat list"
  dtype :: string
  elems :: "real list"

type_synonym geotransform = "real \<times> real \<times> real \<times> real \<times> real \<times> real"

text \<open>
  A raster dataset as GDAL presents it: sizes, band count, the six georeference
  coefficients, the projection text, the sample type code, and the samples of each band
  (row-major).
\<close>

record dataset =
  RasterXSize :: nat
  RasterYSize :: nat
  RasterCount :: nat
  GeoTransform :: geotransform
  Projection :: string
  DataType :: nat
  rasters :: "real list list"

text \<open>
  The state outside the objects: the raster files on disk by path, which paths are
  directories, the log records written so far, the identity the next Landsatband to be
  constructed will have, and the interpreter: \<open>object_names\<close> tells which attribute names
  every object has from the built-in \<^verbatim>\<open>object\<close> and the class machinery (\<^verbatim>\<open>__class__\<close>,
  \<^verbatim>\<open>__dict__\<close>, \<^verbatim>\<open>__doc__\<close> and so on; the list depends on the Python version).
\<close>

record world =
  files :: "string \<rightharpoonup> dataset"
  isdir :: "string \<Rightarrow> bool"
  log :: "log_entry list"
  nextid :: nat
  object_names :: "string \<Rightarrow> bool"

definition logging :: "level \<Rightarrow> string \<Rightarrow> world \<Rightarrow> world" where
  "logging l m w = w\<lparr>log := log w @ [(l, m)]\<rparr>"

text \<open>
  \<^verbatim>\<open>gdal.Open\<close> with \<^verbatim>\<open>gdal.UseExceptions()\<close> in force: a path with no raster file behind it
  raises RuntimeError.
\<close>

definition gdal_Open :: "world \<Rightarrow> string \<Rightarrow> error + dataset" where
  "gdal_Open w filepath =
     (case files w filepath of
        None \<Rightarrow> Inl (RuntimeError (filepath @ '': No such file or directory''))
      | Some d \<Rightarrow> Inr d)"

text \<open>The numpy element type \<^verbatim>\<open>ReadAsArray\<close> chooses for a GDAL type code (float32 otherwise).\<close>

definition typecode_name :: "nat \<Rightarrow> string" where
  "typecode_name t =
     (case map_of [(1, ''uint8''), (2, ''uint16''), (3, ''int16''), (4, ''uint32''),
                   (5, ''int32''), (6, ''float32''), (7, ''float64''),
                   (8, ''complex64''), (9, ''complex64''), (10, ''complex64''),
                   (11, ''complex128'')] t of
        Some n \<Rightarrow> n | None \<Rightarrow> ''float32'')"

text \<open>\<^verbatim>\<open>ReadAsArray\<close>: two-dimensional for one band, band-major three-dimensional otherwise.\<close>

definition ReadAsArray :: "dataset \<Rightarrow> ndarray" where
  "ReadAsArray d =
     \<lparr>shape = (if RasterCount d = 1 then [RasterYSize d, RasterXSize d]
               else [RasterCount d, RasterYSize d, RasterXSize d]),
      dtype = typecode_name (DataType d),
      elems = concat (rasters d)\<rparr>"

text \<open>
  \<^verbatim>\<open>driver.Create(path, xsize, ysize, bands, type)\<close>: a new file of zero samples with the
  default georeference; it fails on a path that is a directory.
\<close>

definition gdal_Create ::
  "world \<Rightarrow> string \<Rightarrow> nat \<Rightarrow> nat \<Rightarrow> nat \<Rightarrow> nat \<Rightarrow> error + (dataset \<times> world)" where
  "gdal_Create w path xsize ysize bands t =
     (if isdir w path then Inl (RuntimeError (path @ '': Is a directory''))
      else
        let d = \<lparr>RasterXSize = xsize, RasterYSize = ysize, RasterCount = bands,
                 GeoTransform = (0, 1, 0, 0, 0, 1), Projection = [], DataType = t,
                 rasters = replicate bands (replicate (xsize * ysize) 0)\<rparr>
        in Inr (d, w\<lparr>files := (files w)(path \<mapsto> d)\<rparr>))"

text \<open>
  \<^verbatim>\<open>ds.GetRasterBand(n)\<close>: RuntimeError on a band the dataset does not have.
\<close>

definition gdal_GetRasterBand :: "dataset \<Rightarrow> nat \<Rightarrow> error + nat" where
  "gdal_GetRasterBand d n =
     (if n < 1 \<or> RasterCount d < n \<or> length (rasters d) < n
      then Inl (RuntimeError (''Illegal band #'' @ str_nat n))
      else Inr n)"

text \<open>
  \<^verbatim>\<open>band.WriteArray(a)\<close> on band \<open>n\<close> of the dataset: the array must be two-dimensional
  and not larger than the band; it is written from the upper left corner.
\<close>

definition write_block :: "nat \<Rightarrow> ndarray \<Rightarrow> real list \<Rightarrow> real list" where
  "write_block xsize a old =
     map (\<lambda>i. let r = i div xsize; c = i mod xsize
              in if r < shape a ! 0 \<and> c < shape a ! 1 then elems a ! (r * (shape a ! 1) + c)
                 else old ! i)
         [0..<length old]"

definition gdal_WriteArray :: "dataset \<Rightarrow> nat \<Rightarrow> ndarray \<Rightarrow> error + dataset" where
  "gdal_WriteArray d n a =
     (if length (shape a) \<noteq> 2 then Inl (ValueError ''expected array of dim 2'')
      else if RasterXSize d < shape a ! 1 \<or> RasterYSize d < shape a ! 0
      then Inl (ValueError ''array larger than output file, or offset off edge'')
      else Inr (d\<lparr>rasters :=
                  (rasters d)[n - 1 := write_block (RasterXSize d) a (rasters d ! (n - 1))]\<rparr>))"

subsection \<open>class GeoTIFF\<close>

record geotiff =
  dataobj :: dataset
  filepath :: string
  ncol :: nat
  nrow :: nat
  nbands :: nat
  gtr :: geotransform
  ulx :: real
  uly :: real
  lrx :: real
  lry :: real

text \<open>The attributes \<^verbatim>\<open>GeoTIFF.__init__\<close> derives from the opened dataset.\<close>

definition geotiff_of :: "dataset \<Rightarrow> string \<Rightarrow> geotiff" where
  "geotiff_of d path =
     (case GeoTransform d of (g0, g1, g2, g3, g4, g5) \<Rightarrow>
        \<lparr>dataobj = d, filepath = path,
         ncol = RasterXSize d, nrow = RasterYSize d, nbands = RasterCount d,
         gtr = GeoTransform d,
         ulx = g0, uly = g3,
         lrx = g0 + real (RasterXSize d) * g1 + real (RasterYSize d) * g2,
         lry = g3 + real (RasterXSize d) * g4 + real (RasterYSize d) * g5\<rparr>)"

text \<open>\<^verbatim>\<open>GeoTIFF.__init__\<close>: a file that cannot be opened is logged and the error raised again.\<close>

definition GeoTIFF_init :: "world \<Rightarrow> string \<Rightarrow> (error + geotiff) \<times> world" where
  "GeoTIFF_init w path =
     (case gdal_Open w path of
        Inl e \<Rightarrow> (Inl e, logging ERROR (''Could not open '' @ path @ '': '' @ error_str e) w)
      | Inr d \<Rightarrow> (Inr (geotiff_of d path), w))"

text \<open>The property \<^verbatim>\<open>data\<close>.\<close>

definition data :: "'a geotiff_scheme \<Rightarrow> ndarray" where
  "data g = ReadAsArray (dataobj g)"

text \<open>The table \<^verbatim>\<open>NPDTYPE2GDALTYPECODE\<close> of \<^verbatim>\<open>clone\<close>.\<close>

definition NPDTYPE2GDALTYPECODE :: "(string \<times> nat) list" where
  "NPDTYPE2GDALTYPECODE =
     [(''uint8'', 1), (''int8'', 1), (''uint16'', 2), (''int16'', 3), (''uint32'', 4),
      (''int32'', 5), (''float32'', 6), (''float64'', 7), (''complex64'', 10),
      (''complex128'', 11)]"

text \<open>
  The shape test of \<^verbatim>\<open>clone\<close>, \<^verbatim>\<open>newdata.shape != self.data.shape and newdata.shape !=
  self.data[0,...].shape\<close>: \<open>Inr True\<close> when the shapes are incompatible. The second
  comparison is only evaluated when the first holds, and indexing an array whose first
  axis is empty raises IndexError.
\<close>

definition shape_differs :: "ndarray \<Rightarrow> ndarray \<Rightarrow> error + bool" where
  "shape_differs newdata olddata =
     (if shape newdata \<noteq> shape olddata then
        (case shape olddata of
           [] \<Rightarrow> Inl (IndexError ''too many indices for array'')
         | n # rest \<Rightarrow>
             if n = 0 then Inl (IndexError ''index 0 is out of bounds for axis 0 with size 0'')
             else Inr (shape newdata \<noteq> rest))
      else Inr False)"

text \<open>\<^verbatim>\<open>newdata[idx, :, :]\<close> of a three-dimensional array.\<close>

definition band_slice :: "ndarray \<Rightarrow> nat \<Rightarrow> ndarray" where
  "band_slice a idx =
     (let n = foldr (*) (tl (shape a)) 1
      in \<lparr>shape = tl (shape a), dtype = dtype a, elems = take n (drop (idx * n) (elems a))\<rparr>)"

text \<open>
  One round of the loop \<^verbatim>\<open>for idx in range(dims): gtiff.GetRasterBand(idx+1).WriteArray(
  newdata[idx, :, :])\<close>, over the list of the indices still to come. The band is fetched
  before the slice is taken.
\<close>

fun write_bands :: "dataset \<Rightarrow> ndarray \<Rightarrow> nat list \<Rightarrow> error + dataset" where
  "write_bands d newdata [] = Inr d"
| "write_bands d newdata (idx # idxs) =
     (case gdal_GetRasterBand d (idx + 1) of
        Inl e \<Rightarrow> Inl e
      | Inr n \<Rightarrow>
          if hd (shape newdata) \<le> idx
          then Inl (IndexError ''index out of bounds for axis 0'')
          else (case gdal_WriteArray d n (band_slice newdata idx) of
                  Inl e \<Rightarrow> Inl e
                | Inr d' \<Rightarrow> write_bands d' newdata idxs))"

text \<open>
  \<^verbatim>\<open>GeoTIFF.clone(newpath, newdata)\<close>, statement by statement. The result is the error
  raised or the GeoTIFF object returned, with the world as the call leaves it. When a
  write fails, the new file is left as \<^verbatim>\<open>Create\<close> and the two setters made it; what GDAL
  has flushed of the bands written before the failure is not modelled.
\<close>

definition clone :: "world \<Rightarrow> 'a geotiff_scheme \<Rightarrow> string \<Rightarrow> ndarray \<Rightarrow> (error + geotiff) \<times> world" where
  "clone w self newpath newdata =
     (let dirname = fst (path_split newpath) in
      if dirname \<noteq> [] \<and> \<not> isdir w dirname then
        (Inl (PygaarstRasterError (dirname @ '' is not a valid directory to save file to '')), w)
      else
      let w1 = (if isdir w newpath
                then logging WARNING
                  ''%s is a directory. Choose a name that is suitable to writing a dataset to.'' w
                else w) in
      (case shape_differs newdata (data self) of
        Inl e \<Rightarrow> (Inl e, w1)
      | Inr True \<Rightarrow>
          (Inl (PygaarstRasterError ''New and cloned GeoTIFF dataset must be the same shape.''), w1)
      | Inr False \<Rightarrow>
      let dims = length (shape newdata) in
      if dims < 2 then
        (Inl (PygaarstRasterError
           (''New data array has only '' @ str_nat dims @ '' dimensions.'')), w1)
      else
      let bands = (if dims = 2 then 1 else hd (shape newdata)) in
      (case map_of NPDTYPE2GDALTYPECODE (dtype newdata) of
        None \<Rightarrow>
          (Inl (PygaarstRasterError
             (''Data type in array cannot be converted to GDAL data type: '' @ [CHR 0x0A] @
              error_str (KeyError (dtype newdata)))), w1)
      | Some gdaltype \<Rightarrow>
      let proj = Projection (dataobj self);
          geotrans = gtr self in
      (case gdal_Create w1 newpath (ncol self) (nrow self) bands gdaltype of
        Inl e \<Rightarrow> (Inl e, w1)
      | Inr (gtiff, w2) \<Rightarrow>
      let gtiff1 = gtiff\<lparr>Projection := proj, GeoTransform := geotrans\<rparr>;
          w3 = w2\<lparr>files := (files w2)(newpath \<mapsto> gtiff1)\<rparr>;
          written = (if dims = 2
                     then (case gdal_GetRasterBand gtiff1 1 of
                             Inl e \<Rightarrow> Inl e
                           | Inr n \<Rightarrow> gdal_WriteArray gtiff1 n newdata)
                     else write_bands gtiff1 newdata [0..<dims]) in
      (case written of
        Inl e \<Rightarrow> (Inl e, w3)
      | Inr gtiff2 \<Rightarrow>
          GeoTIFF_init (w3\<lparr>files := (files w3)(newpath \<mapsto> gtiff2)\<rparr>) newpath)))))"

subsection \<open>Metadata\<close>

text \<open>
  The metadata parser returns a nested mapping, group name to key to value; a value is a
  string, a number or a date.
\<close>

datatype mvalue = MStr string | MNum real | MDate int nat nat

type_synonym metadata = "(string \<times> (string \<times> mvalue) list) list"

text \<open>\<^verbatim>\<open>meta[group][key]\<close>: KeyError on the group or on the key that is missing.\<close>

definition lookup2 :: "metadata \<Rightarrow> string \<Rightarrow> string \<Rightarrow> error + mvalue" where
  "lookup2 m grp key =
     (case map_of m grp of
        None \<Rightarrow> Inl (KeyError grp)
      | Some g \<Rightarrow> (case map_of g key of None \<Rightarrow> Inl (KeyError key) | Some v \<Rightarrow> Inr v))"

subsection \<open>Scenes, bands and attribute values\<close>

text \<open>
  The attributes of a scene that its bands read: everything \<^verbatim>\<open>Landsatscene.__init__\<close> sets
  but the band mapping. \<open>infix_str\<close> is the file-name insert placed before the extension.
\<close>

record scene_attrs =
  dirname :: string
  infix_str :: string
  meta :: metadata
  newmetaformat :: bool
  spacecraft :: string
  majorswversion :: int
  permissiblebands :: "string list"

text \<open>
  A Landsatband is a GeoTIFF with a label, the scene it belongs to (\<open>None\<close> for a
  standalone band), its metadata \<open>bmeta\<close> (the attribute \<^verbatim>\<open>meta\<close>; \<open>None\<close> until set), the
  attributes \<^verbatim>\<open>gain\<close>, \<^verbatim>\<open>bias\<close>, \<^verbatim>\<open>k1\<close>, \<^verbatim>\<open>k2\<close> (\<open>None\<close> while not yet assigned), and the
  identity \<open>oid\<close> of the object.
\<close>

record landsatband = geotiff +
  band :: "string option"
  scene :: "scene_attrs option"
  bmeta :: "metadata option"
  gain :: "mvalue option"
  bias :: "mvalue option"
  k1 :: "mvalue option"
  k2 :: "mvalue option"
  oid :: nat

text \<open>
  A scene is its attributes and the mapping \<^verbatim>\<open>bands\<close> from band label to Landsatband, empty
  after \<^verbatim>\<open>__init__\<close>. A band constructed for a scene holds the scene's attributes.
\<close>

record landsatscene = scene_attrs +
  bands :: "string \<rightharpoonup> landsatband"

text \<open>
  The values an attribute of a scene can have: the values of the instance attributes, a
  band, the array a property returns, a method of the class (by name) and an attribute
  inherited from \<^verbatim>\<open>object\<close> (by name).
\<close>

datatype pyvalue =
    VStr string
  | VBool bool
  | VInt int
  | VMeta metadata
  | VLabels "string list"
  | VBands "string \<rightharpoonup> landsatband"
  | VBand landsatband
  | VArray ndarray
  | VMethod string
  | VInherited string

subsection \<open>The helpers of landsatutils\<close>

text \<open>
  The module \<^verbatim>\<open>pygaarst.landsatutils\<close> is not part of the source under study. Its functions
  and tables that \<^verbatim>\<open>raster.py\<close> calls are parameters: each function may raise, and nothing is
  assumed about what it computes. \<^verbatim>\<open>LTKcloud\<close> receives the scene and \<^verbatim>\<open>naivethermal\<close> the
  value of a band attribute; they return with the scene and the world as they leave them.
\<close>

record landsatutils =
  dn2rad :: "ndarray \<Rightarrow> mvalue \<Rightarrow> mvalue \<Rightarrow> error + ndarray"
  gainbias :: "mvalue \<Rightarrow> mvalue \<Rightarrow> mvalue \<Rightarrow> mvalue \<Rightarrow> error + (mvalue \<times> mvalue)"
  rad2kelvin :: "ndarray \<Rightarrow> mvalue \<Rightarrow> mvalue \<Rightarrow> error + ndarray"
  getKconstants :: "string \<Rightarrow> error + (mvalue \<times> mvalue)"
  getd :: "int \<Rightarrow> error + real"
  getesun :: "string \<Rightarrow> string option \<Rightarrow> error + real"
  normdiff :: "ndarray \<Rightarrow> ndarray \<Rightarrow> error + ndarray"
  NDVI_BANDS :: "(string \<times> string \<times> string) list"
  NBR_BANDS :: "(string \<times> string \<times> string) list"
  LTKcloud :: "landsatscene \<Rightarrow> world \<Rightarrow> (error + ndarray) \<times> landsatscene \<times> world"
  naivethermal :: "pyvalue \<Rightarrow> world \<Rightarrow> (error + ndarray) \<times> world"

subsection \<open>class Landsatband\<close>

text \<open>Truth value of \<^verbatim>\<open>self.meta\<close>: \<^verbatim>\<open>None\<close> and the empty mapping are false.\<close>

definition meta_truthy :: "metadata option \<Rightarrow> bool" where
  "meta_truthy m = (case m of None \<Rightarrow> False | Some [] \<Rightarrow> False | Some (x # xs) \<Rightarrow> True)"

text \<open>
  \<^verbatim>\<open>Landsatband.__init__(filepath, band, scene)\<close>. Without usable metadata the constructor
  tries \<^verbatim>\<open>lu.parsemeta(os.path.basename(self.filepath))\<close>; \<^verbatim>\<open>self.filepath\<close> is not assigned
  before \<^verbatim>\<open>GeoTIFF.__init__\<close> runs, so that attempt always ends in the AttributeError
  handler, which logs a warning. The file is opened last.
\<close>

definition Landsatband_init ::
  "world \<Rightarrow> string \<Rightarrow> string option \<Rightarrow> scene_attrs option \<Rightarrow> (error + landsatband) \<times> world" where
  "Landsatband_init w path label sc =
     (let m = (case sc of None \<Rightarrow> None | Some s \<Rightarrow> Some (meta s));
          w1 = (if \<not> meta_truthy m
                then logging WARNING
                  (''Could not find metadata for band object. Set it explicitly: '' @
                   ''[bandobject].meta = pygaarst.landsatutils.parsemeta([metadatafile])'') w
                else w)
      in case GeoTIFF_init w1 path of
           (Inl e, w2) \<Rightarrow> (Inl e, w2)
         | (Inr g, w2) \<Rightarrow>
             (Inr (geotiff.extend g
                (landsatband.fields label sc m None None None None (nextid w2))),
              w2\<lparr>nextid := nextid w2 + 1\<rparr>))"

text \<open>
  The property \<^verbatim>\<open>spacecraft\<close>: the scene's, or for a standalone band the metadata entry
  \<^verbatim>\<open>PRODUCT_METADATA/SPACECRAFT_ID\<close> as it stands. Subscripting \<^verbatim>\<open>None\<close> is a TypeError, which
  the AttributeError handler of the source does not catch; that handler is never entered
  for metadata that is a mapping or \<^verbatim>\<open>None\<close>.
\<close>

definition band_spacecraft :: "landsatband \<Rightarrow> error + mvalue" where
  "band_spacecraft b =
     (case scene b of
        Some s \<Rightarrow> Inr (MStr (spacecraft s))
      | None \<Rightarrow>
          (case bmeta b of
             None \<Rightarrow> Inl (TypeError ''NoneType object is not subscriptable'')
           | Some m \<Rightarrow> lookup2 m ''PRODUCT_METADATA'' ''SPACECRAFT_ID''))"

text \<open>
  The property \<^verbatim>\<open>newmetaformat\<close>: the scene's, or for a standalone band whether the
  metadata has \<^verbatim>\<open>METADATA_FILE_INFO/PROCESSING_SOFTWARE_VERSION\<close>; on a KeyError there, the
  legacy entry \<^verbatim>\<open>PRODUCT_METADATA/PROCESSING_SOFTWARE\<close> is read (and must exist).
\<close>

definition band_newmetaformat :: "landsatband \<Rightarrow> error + bool" where
  "band_newmetaformat b =
     (case scene b of
        Some s \<Rightarrow> Inr (newmetaformat s)
      | None \<Rightarrow>
          (case bmeta b of
             None \<Rightarrow> Inl (TypeError ''NoneType object is not subscriptable'')
           | Some m \<Rightarrow>
               (case lookup2 m ''METADATA_FILE_INFO'' ''PROCESSING_SOFTWARE_VERSION'' of
                  Inr v \<Rightarrow> Inr True
                | Inl (KeyError k) \<Rightarrow>
                    (case lookup2 m ''PRODUCT_METADATA'' ''PROCESSING_SOFTWARE'' of
                       Inr v \<Rightarrow> Inr False
                     | Inl e \<Rightarrow> Inl e)
                | Inl e \<Rightarrow> Inl e)))"

text \<open>\<^verbatim>\<open>"%s" % self.band\<close>.\<close>

definition fmt_band :: "string option \<Rightarrow> string" where
  "fmt_band l = (case l of None \<Rightarrow> ''None'' | Some s \<Rightarrow> s)"

text \<open>\<^verbatim>\<open>self.meta[group][key]\<close> on a band.\<close>

definition band_lookup :: "landsatband \<Rightarrow> string \<Rightarrow> string \<Rightarrow> error + mvalue" where
  "band_lookup b grp key =
     (case bmeta b of
        None \<Rightarrow> Inl (TypeError ''NoneType object is not subscriptable'')
      | Some m \<Rightarrow> lookup2 m grp key)"

text \<open>
  The two spellings of a band label inside metadata keys: \<^verbatim>\<open>band.replace('L', '_VCID_1')
  .replace('H', '_VCID_2')\<close> in the new format, \<^verbatim>\<open>band.replace('L', '1').replace('H', '2')\<close>
  in the legacy one.
\<close>

definition bandstr_new :: "string \<Rightarrow> string" where
  "bandstr_new l = replace_char (replace_char l (CHR ''L'') ''_VCID_1'') (CHR ''H'') ''_VCID_2''"

definition bandstr_old :: "string \<Rightarrow> string" where
  "bandstr_old l = replace_char (replace_char l (CHR ''L'') ''1'') (CHR ''H'') ''2''"

text \<open>
  The Lmax/Lmin/QCALmax/QCALmin branch shared by the two non-L8 cases of \<^verbatim>\<open>radiance\<close>: four
  lookups in the source's order, \<^verbatim>\<open>lu.gainbias\<close>, \<^verbatim>\<open>lu.dn2rad\<close>.
\<close>

definition radiance_minmax ::
  "landsatutils \<Rightarrow> landsatband \<Rightarrow> string \<Rightarrow> string \<Rightarrow> string \<Rightarrow> string \<Rightarrow> error + ndarray" where
  "radiance_minmax lu b kmax kmin kqmax kqmin =
     (case band_lookup b ''MIN_MAX_RADIANCE'' kmax of Inl e \<Rightarrow> Inl e | Inr lmax \<Rightarrow>
     (case band_lookup b ''MIN_MAX_RADIANCE'' kmin of Inl e \<Rightarrow> Inl e | Inr lmin \<Rightarrow>
     (case band_lookup b ''MIN_MAX_PIXEL_VALUE'' kqmax of Inl e \<Rightarrow> Inl e | Inr qcalmax \<Rightarrow>
     (case band_lookup b ''MIN_MAX_PIXEL_VALUE'' kqmin of Inl e \<Rightarrow> Inl e | Inr qcalmin \<Rightarrow>
     (case gainbias lu lmax lmin qcalmax qcalmin of Inl e \<Rightarrow> Inl e | Inr gb \<Rightarrow>
        dn2rad lu (data b) (fst gb) (snd gb))))))"

text \<open>
  The property \<^verbatim>\<open>radiance\<close>. It returns the result together with the band as the call leaves
  it (the L8 branch assigns \<^verbatim>\<open>self.gain\<close> and \<^verbatim>\<open>self.bias\<close>).
\<close>

definition radiance :: "landsatutils \<Rightarrow> landsatband \<Rightarrow> (error + ndarray) \<times> landsatband" where
  "radiance lu b =
     (if \<not> meta_truthy (bmeta b) then
        (Inl (PygaarstRasterError
           ''Impossible to retrieve metadata for band. No radiance calculation possible.''), b)
      else (case band_spacecraft b of Inl e \<Rightarrow> (Inl e, b) | Inr sp \<Rightarrow>
      if sp = MStr ''L8'' then
        (case band_lookup b ''RADIOMETRIC_RESCALING'' (''RADIANCE_MULT_BAND_'' @ fmt_band (band b)) of
           Inl e \<Rightarrow> (Inl e, b)
         | Inr g \<Rightarrow>
        (let b1 = b\<lparr>gain := Some g\<rparr> in
        (case band_lookup b1 ''RADIOMETRIC_RESCALING'' (''RADIANCE_ADD_BAND_'' @ fmt_band (band b1)) of
           Inl e \<Rightarrow> (Inl e, b1)
         | Inr bi \<Rightarrow>
        (let b2 = b1\<lparr>bias := Some bi\<rparr> in (dn2rad lu (data b2) g bi, b2)))))
      else (case band_newmetaformat b of Inl e \<Rightarrow> (Inl e, b) | Inr nm \<Rightarrow>
      (case band b of
        None \<Rightarrow> (Inl (AttributeError ''NoneType object has no attribute replace''), b)
      | Some l \<Rightarrow>
      if nm then
        (radiance_minmax lu b
           (''RADIANCE_MAXIMUM_BAND_'' @ bandstr_new l) (''RADIANCE_MINIMUM_BAND_'' @ bandstr_new l)
           (''QUANTIZE_CAL_MAX_BAND_'' @ bandstr_new l) (''QUANTIZE_CAL_MIN_BAND_'' @ bandstr_new l), b)
      else
        (radiance_minmax lu b
           (''LMAX_BAND'' @ bandstr_old l) (''LMIN_BAND'' @ bandstr_old l)
           (''QCALMAX_BAND'' @ bandstr_old l) (''QCALMIN_BAND'' @ bandstr_old l), b)))))"


definition array_map :: "(real \<Rightarrow> real) \<Rightarrow> ndarray \<Rightarrow> ndarray" where
  "array_map f a = a\<lparr>dtype := ''float64'', elems := map f (elems a)\<rparr>"



text \<open>
  The property \<^verbatim>\<open>reflectance\<close>; \<open>Inr None\<close> is the value \<^verbatim>\<open>None\<close> returned for a spacecraft
  other than L8, L5 and L7. \<open>reflectance_L8\<close> and \<open>reflectance_L57\<close> are its first two
  branches; \<open>spacecraft_name\<close> is the text of a spacecraft value that is a string.
\<close>

definition spacecraft_name :: "mvalue \<Rightarrow> string" where
  "spacecraft_name v = (case v of MStr s \<Rightarrow> s | MNum x \<Rightarrow> [] | MDate y m d \<Rightarrow> [])"




text \<open>
  The property \<^verbatim>\<open>tKelvin\<close>; \<open>Inr None\<close> is the value \<^verbatim>\<open>None\<close>. The result comes with the band
  and the world as the call leaves them (\<^verbatim>\<open>self.k1\<close>, \<^verbatim>\<open>self.k2\<close> are assigned, a warning may
  be logged).

  \<open>assign_K\<close> is the \<^verbatim>\<open>elif\<close> chain that assigns the thermal constants: from the metadata
  group \<^verbatim>\<open>TIRS_THERMAL_CONSTANTS\<close> for L8, from \<^verbatim>\<open>lu.getKconstants(self.spacecraft)\<close> for L4, L5
  and L7, not at all for any other spacecraft. \<open>kelvin_of\<close> is the last statement,
  \<^verbatim>\<open>lu.rad2kelvin(self.radiance, self.k1, self.k2)\<close>: \<^verbatim>\<open>self.radiance\<close> is evaluated before
  \<^verbatim>\<open>self.k1\<close> and \<^verbatim>\<open>self.k2\<close>, which are missing attributes when nothing has assigned them.
\<close>

definition assign_K :: "landsatutils \<Rightarrow> landsatband \<Rightarrow> mvalue \<Rightarrow> error option \<times> landsatband" where
  "assign_K lu b sp =
     (if sp = MStr ''L8'' then
        (case band_lookup b ''TIRS_THERMAL_CONSTANTS'' (''K1_CONSTANT_BAND_'' @ fmt_band (band b)) of
           Inl e \<Rightarrow> (Some e, b)
         | Inr c1 \<Rightarrow>
        (let b1 = b\<lparr>k1 := Some c1\<rparr> in
        (case band_lookup b1 ''TIRS_THERMAL_CONSTANTS'' (''K2_CONSTANT_BAND_'' @ fmt_band (band b1)) of
           Inl e \<Rightarrow> (Some e, b1)
         | Inr c2 \<Rightarrow> (None, b1\<lparr>k2 := Some c2\<rparr>))))
      else if sp = MStr ''L4'' \<or> sp = MStr ''L5'' \<or> sp = MStr ''L7'' then
        (case getKconstants lu (spacecraft_name sp) of
           Inl e \<Rightarrow> (Some e, b)
         | Inr ks \<Rightarrow> (None, b\<lparr>k1 := Some (fst ks), k2 := Some (snd ks)\<rparr>))
      else (None, b))"

definition kelvin_of ::
  "landsatutils \<Rightarrow> landsatband \<Rightarrow> (error + ndarray option) \<times> landsatband" where
  "kelvin_of lu b =
     (case fst (radiance lu b) of
        Inl e \<Rightarrow> (Inl e, snd (radiance lu b))
      | Inr rad \<Rightarrow>
     (case k1 (snd (radiance lu b)) of
        None \<Rightarrow> (Inl (AttributeError ''Landsatband object has no attribute k1''), snd (radiance lu b))
      | Some c1 \<Rightarrow>
     (case k2 (snd (radiance lu b)) of
        None \<Rightarrow> (Inl (AttributeError ''Landsatband object has no attribute k2''), snd (radiance lu b))
      | Some c2 \<Rightarrow>
     (case rad2kelvin lu rad c1 c2 of
        Inl e \<Rightarrow> (Inl e, snd (radiance lu b))
      | Inr t \<Rightarrow> (Inr (Some t), snd (radiance lu b))))))"

definition tKelvin ::
  "landsatutils \<Rightarrow> world \<Rightarrow> landsatband \<Rightarrow> (error + ndarray option) \<times> landsatband \<times> world" where
  "tKelvin lu w b =
     (if scene b = None then
        (Inl (PygaarstRasterError
           ''Impossible to retrieve metadata for band. No radiance calculation possible.''), b, w)
      else (case band_spacecraft b of Inl e \<Rightarrow> (Inl e, b, w) | Inr sp \<Rightarrow>
        if sp \<noteq> MStr ''L8'' \<and> band b = None then
          (Inl (AttributeError ''NoneType object has no attribute startswith''), b, w)
        else if (sp = MStr ''L8'' \<and> band b \<noteq> Some ''10'' \<and> band b \<noteq> Some ''11'') \<or>
                (sp \<noteq> MStr ''L8'' \<and> \<not> startswith (fmt_band (band b)) ''6'') then
          (Inr None, b,
           logging WARNING
             ''Automatic brightness Temp not implemented. Cannot calculate temperature. Sorry.'' w)
        else
          (case fst (assign_K lu b sp) of
             Some e \<Rightarrow> (Inl e, snd (assign_K lu b sp), w)
           | None \<Rightarrow>
               (fst (kelvin_of lu (snd (assign_K lu b sp))),
                snd (kelvin_of lu (snd (assign_K lu b sp))), w))))"

subsection \<open>class Landsatscene\<close>

text \<open>The instance attributes, as \<^verbatim>\<open>__init__\<close> assigns them (source lines 281 to 299).\<close>

definition instance_dict :: "landsatscene \<Rightarrow> string \<rightharpoonup> pyvalue" where
  "instance_dict s =
     map_of [(''dirname'', VStr (dirname s)),
             (''infix'', VStr (infix_str s)),
             (''meta'', VMeta (meta s)),
             (''newmetaformat'', VBool (newmetaformat s)),
             (''spacecraft'', VStr (spacecraft s)),
             (''majorswversion'', VInt (majorswversion s)),
             (''bands'', VBands (bands s)),
             (''permissiblebands'', VLabels (permissiblebands s))]"

text \<open>
  The metadata key that names a band's file (source lines 322 to 327): \<^verbatim>\<open>FILE_NAME_BAND_\<close>
  and the new-format spelling of the label, or \<^verbatim>\<open>BAND\<close>, the legacy spelling and
  \<^verbatim>\<open>_FILE_NAME\<close>.
\<close>

definition band_keyname :: "bool \<Rightarrow> string \<Rightarrow> string" where
  "band_keyname newformat l =
     (if newformat then ''FILE_NAME_BAND_'' @ bandstr_new l
      else ''BAND'' @ bandstr_old l @ ''_FILE_NAME'')"

text \<open>
  The message of the error for a label that the spacecraft does not have (source lines
  315 to 317).
\<close>

definition unsupported_band_message :: "string \<Rightarrow> string \<Rightarrow> string list \<Rightarrow> string" where
  "unsupported_band_message sc l labels =
     ''Spacecraft '' @ sc @ '' does not have a band '' @ l @
     ''. Permissible band labels are '' @ join '', '' labels @ ''.''"

text \<open>
  The second half of \<^verbatim>\<open>__getattr__\<close> (source lines 320 to 333), for a label that is
  permissible. \<open>resolve_band\<close> reads the file name from the metadata under the band's key;
  \<open>open_band\<close> places the insert before the extension of that name, joins the path to the
  scene's directory, constructs a Landsatband and stores it in \<^verbatim>\<open>self.bands\<close>. The mapping
  is written and never read: no earlier entry is consulted. A file name that is not a
  string makes \<^verbatim>\<open>os.path.splitext\<close> fail (an AttributeError under Python 2, which the
  module targets).
\<close>

definition open_band ::
  "world \<Rightarrow> landsatscene \<Rightarrow> string \<Rightarrow> mvalue \<Rightarrow> (error + pyvalue) \<times> landsatscene \<times> world" where
  "open_band w s l v =
     (case v of
        MStr bandfn \<Rightarrow>
          (let postprocessfn = fst (splitext bandfn) @ infix_str s @ snd (splitext bandfn);
               bandpath = path_join (dirname s) postprocessfn;
               made = Landsatband_init w bandpath (Some l) (Some (scene_attrs.truncate s))
           in (case fst made of
                 Inl e \<Rightarrow> (Inl e, s, snd made)
               | Inr b \<Rightarrow> (Inr (VBand b), s\<lparr>bands := (bands s)(l \<mapsto> b)\<rparr>, snd made)))
      | MNum x \<Rightarrow> (Inl (AttributeError ''float object has no attribute rfind''), s, w)
      | MDate y m d \<Rightarrow>
          (Inl (AttributeError ''datetime.date object has no attribute rfind''), s, w))"

definition resolve_band ::
  "world \<Rightarrow> landsatscene \<Rightarrow> string \<Rightarrow> (error + pyvalue) \<times> landsatscene \<times> world" where
  "resolve_band w s l =
     (case lookup2 (meta s) ''PRODUCT_METADATA'' (band_keyname (newmetaformat s) l) of
        Inl e \<Rightarrow> (Inl e, s, w)
      | Inr v \<Rightarrow> open_band w s l v)"

text \<open>
  An attribute access or a call on a scene ends in a value or an exception and leaves the
  scene and the world changed. The class defines four properties; the function that
  evaluates a property, given its name, is a parameter \<open>P\<close> of the functions below and is
  defined after them (\<open>properties\<close>), since the getters call back into \<^verbatim>\<open>__getattr__\<close>.
\<close>

type_synonym outcome = "(error + pyvalue) \<times> landsatscene \<times> world"

type_synonym getters = "string \<Rightarrow> world \<Rightarrow> landsatscene \<Rightarrow> outcome"

definition property_names :: "string list" where
  "property_names = [''NDVI'', ''NBR'', ''ltkcloud'', ''naivecloud'']"

definition method_names :: "string list" where
  "method_names = [''__init__'', ''__getattr__'']"

definition is_AttributeError :: "error \<Rightarrow> bool" where
  "is_AttributeError e = (case e of AttributeError m \<Rightarrow> True | _ \<Rightarrow> False)"

text \<open>
  \<^verbatim>\<open>object.__getattribute__(self, name)\<close>, the ordinary lookup: a property of the class is
  evaluated (its exception, if any, is the result); then the instance attributes; then the
  methods of the class and the attributes inherited from \<^verbatim>\<open>object\<close>, whose names all begin
  with two underscores; any other name raises AttributeError.
\<close>

definition object_getattribute :: "getters \<Rightarrow> world \<Rightarrow> landsatscene \<Rightarrow> string \<Rightarrow> outcome" where
  "object_getattribute P w s name =
     (if name \<in> set property_names then P name w s
      else (case instance_dict s name of
              Some v \<Rightarrow> (Inr v, s, w)
            | None \<Rightarrow>
                if name \<in> set method_names then (Inr (VMethod name), s, w)
                else if startswith name ''__'' \<and> object_names w name
                then (Inr (VInherited name), s, w)
                else (Inl (AttributeError (''Landsatscene object has no attribute '' @ name)),
                      s, w)))"

text \<open>
  \<^verbatim>\<open>Landsatscene.__getattr__(bandname)\<close>. The name is lower-cased and split at its first
  \<^verbatim>\<open>band\<close>; when nothing precedes \<^verbatim>\<open>band\<close>, the rest, upper-cased, must be a permissible
  label. Any other name is handed to \<^verbatim>\<open>object.__getattribute__\<close> (source line 335).
\<close>

definition Landsatscene_getattr :: "getters \<Rightarrow> world \<Rightarrow> landsatscene \<Rightarrow> string \<Rightarrow> outcome" where
  "Landsatscene_getattr P w s bandname =
     (let parts = partition_str (lower bandname) ''band'';
          head = fst parts;
          tail = snd (snd parts);
          l = upper tail
      in if head = [] then
           (if l \<in> set (permissiblebands s) then resolve_band w s l
            else (Inl (PygaarstRasterError
                    (unsupported_band_message (spacecraft s) l (permissiblebands s))), s, w))
         else object_getattribute P w s bandname)"

text \<open>
  The attribute access \<^verbatim>\<open>scene.name\<close>: the ordinary lookup first; when that raises
  AttributeError (the name is not found, or a property's getter raised it), Python calls
  \<^verbatim>\<open>__getattr__\<close> with the name, on the scene and the world as the lookup left them.
\<close>

definition scene_attribute :: "getters \<Rightarrow> world \<Rightarrow> landsatscene \<Rightarrow> string \<Rightarrow> outcome" where
  "scene_attribute P w s name =
     (case object_getattribute P w s name of
        (Inl e, s1, w1) \<Rightarrow>
          if is_AttributeError e then Landsatscene_getattr P w1 s1 name else (Inl e, s1, w1)
      | (Inr v, s1, w1) \<Rightarrow> (Inr v, s1, w1))"

text \<open>
  \<^verbatim>\<open>value.data\<close>: the samples of a band; an array has \<^verbatim>\<open>data\<close> too (the buffer over its
  samples, which the model does not tell from the array); no other attribute value has
  it.
\<close>

definition value_data :: "pyvalue \<Rightarrow> error + ndarray" where
  "value_data v =
     (case v of
        VBand b \<Rightarrow> Inr (data b)
      | VArray a \<Rightarrow> Inr a
      | _ \<Rightarrow> Inl (AttributeError ''object has no attribute data''))"

text \<open>
  The body of the \<^verbatim>\<open>try\<close> block that \<^verbatim>\<open>NDVI\<close> and \<^verbatim>\<open>NBR\<close> share (source lines 341 to 343 and
  352 to 354): \<^verbatim>\<open>self.__getattr__\<close> is called for the first label and the data of its result
  is read, then the same for the second label, then \<^verbatim>\<open>lu.normdiff\<close>.
\<close>

definition index_body ::
  "getters \<Rightarrow> landsatutils \<Rightarrow> world \<Rightarrow> landsatscene \<Rightarrow> string \<Rightarrow> string \<Rightarrow>
     (error + ndarray) \<times> landsatscene \<times> world" where
  "index_body P lu w s label1 label2 =
     (case Landsatscene_getattr P w s label1 of
        (Inl e, s1, w1) \<Rightarrow> (Inl e, s1, w1)
      | (Inr v1, s1, w1) \<Rightarrow>
     (case value_data v1 of
        Inl e \<Rightarrow> (Inl e, s1, w1)
      | Inr arr1 \<Rightarrow>
     (case Landsatscene_getattr P w1 s1 label2 of
        (Inl e, s2, w2) \<Rightarrow> (Inl e, s2, w2)
      | (Inr v2, s2, w2) \<Rightarrow>
     (case value_data v2 of
        Inl e \<Rightarrow> (Inl e, s2, w2)
      | Inr arr2 \<Rightarrow> (normdiff lu arr1 arr2, s2, w2)))))"

text \<open>
  The getter that \<^verbatim>\<open>NDVI\<close> and \<^verbatim>\<open>NBR\<close> share, for the table and the name of the index: the
  pair of labels is read from the table (a KeyError outside the \<^verbatim>\<open>try\<close>), the body runs, and
  the handler \<^verbatim>\<open>except AttributeError: logging.critical(...); raise\<close> logs an AttributeError
  with both labels and raises it again; every other exception passes the handler
  untouched.
\<close>

definition index_message :: "string \<Rightarrow> string \<Rightarrow> string \<Rightarrow> string" where
  "index_message label1 label2 what =
     ''Error accessing bands '' @ label1 @ '' and '' @ label2 @ '' to calculate '' @ what @ ''.''"

definition normalized_index ::
  "getters \<Rightarrow> landsatutils \<Rightarrow> world \<Rightarrow> landsatscene \<Rightarrow> (string \<times> string \<times> string) list \<Rightarrow>
     string \<Rightarrow> outcome" where
  "normalized_index P lu w s table what =
     (case map_of table (spacecraft s) of
        None \<Rightarrow> (Inl (KeyError (spacecraft s)), s, w)
      | Some labels \<Rightarrow>
          (case index_body P lu w s (fst labels) (snd labels) of
             (Inl e, s1, w1) \<Rightarrow>
               (Inl e, s1,
                if is_AttributeError e
                then logging CRITICAL (index_message (fst labels) (snd labels) what) w1
                else w1)
           | (Inr a, s1, w1) \<Rightarrow> (Inr (VArray a), s1, w1)))"

text \<open>
  The getter of \<^verbatim>\<open>ltkcloud\<close>, \<^verbatim>\<open>lu.LTKcloud(self)\<close>, and the getter of \<^verbatim>\<open>naivecloud\<close>, which
  reads \<^verbatim>\<open>self.band10\<close>, \<^verbatim>\<open>self.band6H\<close> or \<^verbatim>\<open>self.band6\<close> by attribute access and hands the
  result to \<^verbatim>\<open>lu.naivethermal\<close>.
\<close>

definition ltkcloud_getter :: "landsatutils \<Rightarrow> world \<Rightarrow> landsatscene \<Rightarrow> outcome" where
  "ltkcloud_getter lu w s =
     (case LTKcloud lu s w of
        (Inl e, s1, w1) \<Rightarrow> (Inl e, s1, w1)
      | (Inr a, s1, w1) \<Rightarrow> (Inr (VArray a), s1, w1))"

definition naivecloud_getter :: "getters \<Rightarrow> landsatutils \<Rightarrow> world \<Rightarrow> landsatscene \<Rightarrow> outcome" where
  "naivecloud_getter P lu w s =
     (case scene_attribute P w s
             (if spacecraft s = ''L8'' then ''band10''
              else if spacecraft s = ''L7'' then ''band6H'' else ''band6'') of
        (Inl e, s1, w1) \<Rightarrow> (Inl e, s1, w1)
      | (Inr v, s1, w1) \<Rightarrow>
          (case naivethermal lu v w1 of
             (Inl e, w2) \<Rightarrow> (Inl e, s1, w2)
           | (Inr a, w2) \<Rightarrow> (Inr (VArray a), s1, w2)))"

text \<open>
  The properties of the class, by name. A getter reaches \<^verbatim>\<open>__getattr__\<close>, which can reach a
  getter again (a table of \<^verbatim>\<open>landsatutils\<close> may name a property as a band label), so the
  evaluation carries the number \<open>d\<close> of nested property evaluations still allowed, as the
  interpreter's recursion limit bounds them: with none left, the getter is not run and
  the RuntimeError of the limit is raised.
\<close>

fun properties :: "landsatutils \<Rightarrow> nat \<Rightarrow> getters" where
  "properties lu 0 name w s =
     (Inl (RuntimeError ''maximum recursion depth exceeded''), s, w)"
| "properties lu (Suc d) name w s =
     (if name = ''NDVI'' then normalized_index (properties lu d) lu w s (NDVI_BANDS lu) ''NDVI''
      else if name = ''NBR'' then normalized_index (properties lu d) lu w s (NBR_BANDS lu) ''NBR''
      else if name = ''ltkcloud'' then ltkcloud_getter lu w s
      else if name = ''naivecloud'' then naivecloud_getter (properties lu d) lu w s
      else (Inl (AttributeError (''Landsatscene object has no attribute '' @ name)), s, w))"



subsection \<open>An instance of landsatutils and concrete inputs\<close>

text \<open>
  Modelled from the spec: \<^verbatim>\<open>pygaarst.landsatutils\<close> is missing from the source; the functions
  below follow the formulas the specification gives for them (section 4.2): \<open>pixel * gain +
  bias\<close>, \<open>gain = (max - min) / (quantizeMax - quantizeMin)\<close> and \<open>bias = min - gain *
  quantizeMin\<close>, \<open>k2 / ln (k1 / radiance + 1)\<close>, \<open>(a - b) / (a + b)\<close>. They serve to evaluate
  the functions of \<^verbatim>\<open>raster.py\<close> on concrete inputs; the theorems about \<^verbatim>\<open>raster.py\<close> hold for
  every instance.
\<close>

definition dn2rad_spec :: "ndarray \<Rightarrow> mvalue \<Rightarrow> mvalue \<Rightarrow> error + ndarray" where
  "dn2rad_spec a g0 b0 =
     (case (g0, b0) of
        (MNum g, MNum bi) \<Rightarrow> Inr (array_map (\<lambda>x. x * g + bi) a)
      | _ \<Rightarrow> Inl (TypeError ''unsupported operand type(s)''))"

definition gainbias_spec :: "mvalue \<Rightarrow> mvalue \<Rightarrow> mvalue \<Rightarrow> mvalue \<Rightarrow> error + (mvalue \<times> mvalue)" where
  "gainbias_spec lmax lmin qcalmax qcalmin =
     (case (lmax, lmin, qcalmax, qcalmin) of
        (MNum a, MNum b, MNum c, MNum d) \<Rightarrow>
          Inr (MNum ((a - b) / (c - d)), MNum (b - (a - b) / (c - d) * d))
      | _ \<Rightarrow> Inl (TypeError ''unsupported operand type(s)''))"

definition rad2kelvin_spec :: "ndarray \<Rightarrow> mvalue \<Rightarrow> mvalue \<Rightarrow> error + ndarray" where
  "rad2kelvin_spec rad c1 c2 =
     (case (c1, c2) of
        (MNum a, MNum b) \<Rightarrow> Inr (array_map (\<lambda>x. b / ln (a / x + 1)) rad)
      | _ \<Rightarrow> Inl (TypeError ''unsupported operand type(s)''))"

definition normdiff_spec :: "ndarray \<Rightarrow> ndarray \<Rightarrow> error + ndarray" where
  "normdiff_spec a b =
     (if shape a = shape b
      then Inr (a\<lparr>dtype := ''float64'',
                  elems := map (\<lambda>p. (fst p - snd p) / (fst p + snd p)) (zip (elems a) (elems b))\<rparr>)
      else Inl (ValueError ''operands could not be broadcast together''))"

text \<open>
  Modelled from the spec: the tables of \<^verbatim>\<open>landsatutils\<close> are missing as well. The
  specification fixes the NDVI pair of L8 (bands 5 and 4, section 8) and says that the
  thermal constants come from a table keyed by spacecraft; the other entries are sample
  values. The two cloud helpers are stand-ins: \<^verbatim>\<open>LTKcloud\<close> fails and \<^verbatim>\<open>naivethermal\<close> returns
  the data of the value it is given.
\<close>

definition getKconstants_example :: "string \<Rightarrow> error + (mvalue \<times> mvalue)" where
  "getKconstants_example sc =
     (case map_of [(''L4'', (MNum 671.62, MNum 1284.30)),
                   (''L5'', (MNum 607.76, MNum 1260.56)),
                   (''L7'', (MNum 666.09, MNum 1282.71))] sc of
        None \<Rightarrow> Inl (KeyError sc)
      | Some ks \<Rightarrow> Inr ks)"

definition lu_example :: landsatutils where
  "lu_example =
     \<lparr>dn2rad = dn2rad_spec, gainbias = gainbias_spec, rad2kelvin = rad2kelvin_spec,
      getKconstants = getKconstants_example,
      getd = (\<lambda>j. Inr 1), getesun = (\<lambda>sc l. Inr 1500),
      normdiff = normdiff_spec,
      NDVI_BANDS = [(''L8'', (''band5'', ''band4'')), (''L7'', (''band4'', ''band3''))],
      NBR_BANDS = [(''L8'', (''band5'', ''band7'')), (''L7'', (''band4'', ''band7''))],
      LTKcloud = (\<lambda>s w. (Inl (ValueError ''no cloud mask''), s, w)),
      naivethermal = (\<lambda>v w. (value_data v, w))\<rparr>"

text \<open>Two small rasters of one pixel: one band, and two bands.\<close>

definition ds_one :: dataset where
  "ds_one =
     \<lparr>RasterXSize = 1, RasterYSize = 1, RasterCount = 1,
      GeoTransform = (500000, 30, 0, 7000000, 0, - 30), Projection = ''UTM6N'',
      DataType = 2, rasters = [[7]]\<rparr>"

definition ds_two :: dataset where
  "ds_two =
     \<lparr>RasterXSize = 1, RasterYSize = 1, RasterCount = 2,
      GeoTransform = (500000, 30, 0, 7000000, 0, - 30), Projection = ''UTM6N'',
      DataType = 1, rasters = [[7], [9]]\<rparr>"

text \<open>
  A file system with the band files of two scenes and a two-band raster; \<^verbatim>\<open>out\<close> is a
  directory, \<^verbatim>\<open>/nodir\<close> does not exist. Nothing has been logged or constructed yet. The
  inherited names are those of Python 2.7.
\<close>

definition world_example :: world where
  "world_example =
     \<lparr>files = map_of [(''/data/LC8/B4.TIF'', ds_one), (''/data/LC8/B5.TIF'', ds_one),
                      (''/data/LE7/B62.TIF'', ds_one), (''/data/two.tif'', ds_two)],
      isdir = (\<lambda>p. p \<in> set [''/data'', ''/data/LC8'', ''/data/LE7'', ''out'']),
      log = [], nextid = 0,
      object_names = (\<lambda>n. n \<in> set [''__class__'', ''__delattr__'', ''__dict__'', ''__doc__'',
        ''__format__'', ''__getattribute__'', ''__hash__'', ''__module__'', ''__new__'',
        ''__reduce__'', ''__reduce_ex__'', ''__repr__'', ''__setattr__'', ''__sizeof__'',
        ''__str__'', ''__subclasshook__'', ''__weakref__''])\<rparr>"

text \<open>
  A Landsat 8 scene (new metadata format). Its metadata names the files of bands 4 and 5;
  the file of band 7 is named but is not on disk. It has the rescaling coefficients of
  bands 5 and 10 and the thermal constants of band 10.
\<close>

definition scene_L8 :: landsatscene where
  "scene_L8 =
     \<lparr>dirname = ''/data/LC8'', infix_str = [],
      meta = [(''PRODUCT_METADATA'',
                 [(''SPACECRAFT_ID'', MStr ''LANDSAT_8''),
                  (''FILE_NAME_BAND_4'', MStr ''B4.TIF''),
                  (''FILE_NAME_BAND_5'', MStr ''B5.TIF''),
                  (''FILE_NAME_BAND_7'', MStr ''B7.TIF'')]),
              (''RADIOMETRIC_RESCALING'',
                 [(''RADIANCE_MULT_BAND_5'', MNum 2), (''RADIANCE_ADD_BAND_5'', MNum 1),
                  (''RADIANCE_MULT_BAND_10'', MNum 3), (''RADIANCE_ADD_BAND_10'', MNum 1)]),
              (''TIRS_THERMAL_CONSTANTS'',
                 [(''K1_CONSTANT_BAND_10'', MNum 774.89), (''K2_CONSTANT_BAND_10'', MNum 1321.08)])],
      newmetaformat = True, spacecraft = ''L8'', majorswversion = 2,
      permissiblebands = [''1'', ''2'', ''3'', ''4'', ''5'', ''6'', ''7'', ''8'', ''9'', ''10'', ''11''],
      bands = Map.empty\<rparr>"

text \<open>
  A Landsat 7 scene with legacy metadata: band 1 is file \<^verbatim>\<open>B10.TIF\<close>, the high-gain thermal
  band 6H is file \<^verbatim>\<open>B62.TIF\<close>, with its radiance range under the legacy keys; no file is
  named for the low-gain band 6L.
\<close>

definition scene_L7 :: landsatscene where
  "scene_L7 =
     \<lparr>dirname = ''/data/LE7'', infix_str = [],
      meta = [(''PRODUCT_METADATA'',
                 [(''SPACECRAFT_ID'', MStr ''Landsat7''),
                  (''BAND1_FILE_NAME'', MStr ''B10.TIF''),
                  (''BAND62_FILE_NAME'', MStr ''B62.TIF'')]),
              (''MIN_MAX_RADIANCE'', [(''LMAX_BAND62'', MNum 12), (''LMIN_BAND62'', MNum 2)]),
              (''MIN_MAX_PIXEL_VALUE'', [(''QCALMAX_BAND62'', MNum 6), (''QCALMIN_BAND62'', MNum 1)])],
      newmetaformat = False, spacecraft = ''L7'', majorswversion = 12,
      permissiblebands = [''1'', ''2'', ''3'', ''4'', ''5'', ''6L'', ''6H'', ''7'', ''8''],
      bands = Map.empty\<rparr>"

text \<open>
  A Landsat 7 scene in the new format whose metadata has a file name under the key
  \<^verbatim>\<open>FILE_NAME_BAND__VCID_1\<close> only.
\<close>

definition scene_L7_vcid :: landsatscene where
  "scene_L7_vcid =
     \<lparr>dirname = ''/data/LE7'', infix_str = [],
      meta = [(''PRODUCT_METADATA'',
                 [(''SPACECRAFT_ID'', MStr ''LANDSAT_7''),
                  (''FILE_NAME_BAND__VCID_1'', MStr ''B62.TIF'')])],
      newmetaformat = True, spacecraft = ''L7'', majorswversion = 12,
      permissiblebands = [''1'', ''2'', ''3'', ''4'', ''5'', ''6L'', ''6H'', ''7'', ''8''],
      bands = Map.empty\<rparr>"

text \<open>
  A Landsatband over the one-pixel raster, as the constructor leaves it, with the given
  label, scene and metadata.
\<close>

definition band_example :: "string option \<Rightarrow> scene_attrs option \<Rightarrow> metadata option \<Rightarrow> landsatband" where
  "band_example l sc m =
     geotiff.extend (geotiff_of ds_one ''/data/LC8/B5.TIF'')
       (landsatband.fields l sc m None None None None 0)"



text \<open>
  The Landsatband that \<^verbatim>\<open>__getattr__\<close> constructs over dataset \<open>d\<close> at path \<open>p\<close> for label \<open>l\<close>
  of a scene with attributes \<open>sc\<close>, as the \<open>n\<close>-th object.
\<close>

definition new_band :: "dataset \<Rightarrow> string \<Rightarrow> string \<Rightarrow> scene_attrs \<Rightarrow> nat \<Rightarrow> landsatband" where
  "new_band d p l sc n =
     geotiff.extend (geotiff_of d p)
       (landsatband.fields (Some l) (Some sc) (Some (meta sc)) None None None None n)"

text \<open>Two accesses of \<^verbatim>\<open>band5\<close> on the L8 scene, one after the other.\<close>

definition first_access :: outcome where
  "first_access = scene_attribute (properties lu_example 1) world_example scene_L8 ''band5''"

definition second_access :: outcome where
  "second_access =
     scene_attribute (properties lu_example 1) (snd (snd first_access)) (fst (snd first_access))
       ''band5''"


text \<open>
  The GeoTIFF objects over the one-band and the two-band raster, and arrays to clone them
  with: one band of 16-bit integers, two bands of bytes, two bands of 16-bit floats (an
  element type the table of \<^verbatim>\<open>clone\<close> does not have), and one band of the wrong shape.
\<close>

definition tiff_one :: geotiff where
  "tiff_one = geotiff_of ds_one ''/data/LC8/B5.TIF''"

definition tiff_two :: geotiff where
  "tiff_two = geotiff_of ds_two ''/data/two.tif''"

definition array_one :: ndarray where
  "array_one = \<lparr>shape = [1, 1], dtype = ''uint16'', elems = [5]\<rparr>"

definition array_two :: ndarray where
  "array_two = \<lparr>shape = [2, 1, 1], dtype = ''uint8'', elems = [1, 2]\<rparr>"

definition array_half :: ndarray where
  "array_half = \<lparr>shape = [2, 1, 1], dtype = ''float16'', elems = [1, 2]\<rparr>"

definition array_wide :: ndarray where
  "array_wide = \<lparr>shape = [1, 2], dtype = ''uint16'', elems = [5, 6]\<rparr>"

section \<open>Properties\<close>

subsection \<open>Facts about the string functions and the sample band\<close>

lemma upper_lower_char: "upper_char (lower_char c) = upper_char c"
proof (cases "65 \<le> (of_char c :: nat) \<and> (of_char c :: nat) \<le> 90")
  case True
  then have "(of_char (char_of (of_char c + 32 :: nat)) :: nat) = of_char c + 32"
    by (simp add: of_char_of)
  with True show ?thesis
    by (simp add: upper_char_def lower_char_def Let_def)
next
  case False
  then show ?thesis by (auto simp add: lower_char_def Let_def)
qed

lemma upper_lower: "upper (lower s) = upper s"
  by (simp add: upper_def lower_def upper_lower_char)

lemma band_example_sel [simp]:
  "band (band_example l sc m) = l" "scene (band_example l sc m) = sc"
  "bmeta (band_example l sc m) = m" "k1 (band_example l sc m) = None"
  "k2 (band_example l sc m) = None"
  "dataobj (band_example l sc m) = ds_one"
  by (simp_all add: band_example_def geotiff.extend_def landsatband.fields_def geotiff_of_def
      ds_one_def landsatband.defs geotiff.defs)

subsection \<open>Brightness temperature\<close>

text \<open>
  Claim C7. A band that belongs to a scene and whose label is not thermal (on L8 a label
  other than 10 and 11, on any other spacecraft a label that does not start with 6) gets
  \<^verbatim>\<open>None\<close> from \<^verbatim>\<open>tKelvin\<close>: no error is raised, the band is unchanged, and the only effect
  is one warning appended to the log.
\<close>

theorem tKelvin_nonthermal:
  assumes "scene b = Some s" and "band b = Some l"
    and "(spacecraft s = ''L8'' \<and> l \<noteq> ''10'' \<and> l \<noteq> ''11'') \<or>
         (spacecraft s \<noteq> ''L8'' \<and> \<not> startswith l ''6'')"
  shows "tKelvin lu w b =
           (Inr None, b,
            w\<lparr>log := log w @ [(WARNING,
              ''Automatic brightness Temp not implemented. Cannot calculate temperature. Sorry.'')]\<rparr>)"
  using assms by (auto simp add: tKelvin_def band_spacecraft_def fmt_band_def logging_def)

theorem tKelvin_nonthermal_witness:
  "tKelvin lu_example world_example
     (band_example (Some ''5'') (Some (scene_attrs.truncate scene_L8)) (Some (meta scene_L8))) =
   (Inr None,
    band_example (Some ''5'') (Some (scene_attrs.truncate scene_L8)) (Some (meta scene_L8)),
    world_example\<lparr>log := [(WARNING,
      ''Automatic brightness Temp not implemented. Cannot calculate temperature. Sorry.'')]\<rparr>)"
  using tKelvin_nonthermal [of "band_example (Some ''5'') (Some (scene_attrs.truncate scene_L8)) (Some (meta scene_L8))"
      "scene_attrs.truncate scene_L8" "''5''" lu_example world_example]
  by (simp add: scene_L8_def scene_attrs.truncate_def world_example_def)


lemma data_gain_bias [simp]: "data (b\<lparr>gain := x\<rparr>) = data b" "data (b\<lparr>bias := y\<rparr>) = data b"
  by (simp_all add: data_def)









lemma band_lookup_k [simp]:
  "band_lookup (b\<lparr>k1 := x\<rparr>) g k = band_lookup b g k"
  "band_lookup (b\<lparr>k2 := y\<rparr>) g k = band_lookup b g k"
  "band_lookup (b\<lparr>gain := u\<rparr>) g k = band_lookup b g k"
  "band_lookup (b\<lparr>bias := v\<rparr>) g k = band_lookup b g k"
  by (simp_all add: band_lookup_def)

lemma radiance_minmax_k [simp]:
  "radiance_minmax lu (b\<lparr>k1 := x, k2 := y\<rparr>) a c d e = radiance_minmax lu b a c d e"
  by (simp add: radiance_minmax_def data_def cong: sum.case_cong)

lemma radiance_ignores_k:
  "fst (radiance lu (b\<lparr>k1 := x, k2 := y\<rparr>)) = fst (radiance lu b)"
  by (simp add: radiance_def band_spacecraft_def band_newmetaformat_def data_def Let_def
      split: sum.splits option.splits)

lemma radiance_keeps_k:
  "k1 (snd (radiance lu b)) = k1 b" "k2 (snd (radiance lu b)) = k2 b"
  by (simp_all add: radiance_def Let_def split: sum.splits option.splits)

text \<open>
  Claim C8. For a band of a scene of L4, L5 or L7 whose label starts with 6, the constants
  that \<^verbatim>\<open>tKelvin\<close> hands to \<^verbatim>\<open>lu.rad2kelvin\<close> are the pair \<^verbatim>\<open>lu.getKconstants\<close> returns for the
  spacecraft identifier; no metadata entry is read for them. For a band 10 or 11 of an L8
  scene they are the metadata entries \<^verbatim>\<open>K1_CONSTANT_BAND_\<close> and \<^verbatim>\<open>K2_CONSTANT_BAND_\<close> of that
  band in the group \<^verbatim>\<open>TIRS_THERMAL_CONSTANTS\<close>, and \<^verbatim>\<open>lu.getKconstants\<close> is not called. In both
  cases the radiance is that of the band itself.
\<close>

theorem tKelvin_constants:
  "(scene b = Some s \<and> band b = Some l \<and> startswith l ''6'' \<and>
    (spacecraft s = ''L4'' \<or> spacecraft s = ''L5'' \<or> spacecraft s = ''L7'') \<longrightarrow>
      fst (tKelvin lu w b) =
        (case getKconstants lu (spacecraft s) of
           Inl e \<Rightarrow> Inl e
         | Inr ks \<Rightarrow>
             (case fst (radiance lu b) of
                Inl e \<Rightarrow> Inl e
              | Inr rad \<Rightarrow>
                  (case rad2kelvin lu rad (fst ks) (snd ks) of
                     Inl e \<Rightarrow> Inl e
                   | Inr t \<Rightarrow> Inr (Some t)))))
   \<and> (scene b = Some s \<and> band b = Some l \<and> spacecraft s = ''L8'' \<and> (l = ''10'' \<or> l = ''11'') \<longrightarrow>
      fst (tKelvin lu w b) =
        (case band_lookup b ''TIRS_THERMAL_CONSTANTS'' (''K1_CONSTANT_BAND_'' @ l) of
           Inl e \<Rightarrow> Inl e
         | Inr c1 \<Rightarrow>
             (case band_lookup b ''TIRS_THERMAL_CONSTANTS'' (''K2_CONSTANT_BAND_'' @ l) of
                Inl e \<Rightarrow> Inl e
              | Inr c2 \<Rightarrow>
                  (case fst (radiance lu b) of
                     Inl e \<Rightarrow> Inl e
                   | Inr rad \<Rightarrow>
                       (case rad2kelvin lu rad c1 c2 of
                          Inl e \<Rightarrow> Inl e
                        | Inr t \<Rightarrow> Inr (Some t))))))"
proof (intro conjI impI)
  assume a: "scene b = Some s \<and> band b = Some l \<and> startswith l ''6'' \<and>
    (spacecraft s = ''L4'' \<or> spacecraft s = ''L5'' \<or> spacecraft s = ''L7'')"
  then have sp: "band_spacecraft b = Inr (MStr (spacecraft s))" "spacecraft s \<noteq> ''L8''"
    by (auto simp add: band_spacecraft_def)
  from a have nm: "spacecraft_name (MStr (spacecraft s)) = spacecraft s"
    by (simp add: spacecraft_name_def)
  show "fst (tKelvin lu w b) =
        (case getKconstants lu (spacecraft s) of
           Inl e \<Rightarrow> Inl e
         | Inr ks \<Rightarrow>
             (case fst (radiance lu b) of
                Inl e \<Rightarrow> Inl e
              | Inr rad \<Rightarrow>
                  (case rad2kelvin lu rad (fst ks) (snd ks) of
                     Inl e \<Rightarrow> Inl e
                   | Inr t \<Rightarrow> Inr (Some t))))"
    using a sp nm
    by (auto simp add: tKelvin_def assign_K_def kelvin_of_def fmt_band_def
        radiance_ignores_k radiance_keeps_k split: sum.splits)
next
  assume a: "scene b = Some s \<and> band b = Some l \<and> spacecraft s = ''L8'' \<and> (l = ''10'' \<or> l = ''11'')"
  then have sp: "band_spacecraft b = Inr (MStr ''L8'')"
    by (auto simp add: band_spacecraft_def)
  have r: "\<And>x y. fst (radiance lu (b\<lparr>k1 := x, k2 := y\<rparr>)) = fst (radiance lu b)"
    by (rule radiance_ignores_k)
  show "fst (tKelvin lu w b) =
        (case band_lookup b ''TIRS_THERMAL_CONSTANTS'' (''K1_CONSTANT_BAND_'' @ l) of
           Inl e \<Rightarrow> Inl e
         | Inr c1 \<Rightarrow>
             (case band_lookup b ''TIRS_THERMAL_CONSTANTS'' (''K2_CONSTANT_BAND_'' @ l) of
                Inl e \<Rightarrow> Inl e
              | Inr c2 \<Rightarrow>
                  (case fst (radiance lu b) of
                     Inl e \<Rightarrow> Inl e
                   | Inr rad \<Rightarrow>
                       (case rad2kelvin lu rad c1 c2 of
                          Inl e \<Rightarrow> Inl e
                        | Inr t \<Rightarrow> Inr (Some t)))))"
    using a sp
    by (auto simp add: tKelvin_def assign_K_def kelvin_of_def fmt_band_def Let_def
        r radiance_keeps_k split: sum.splits)
qed

lemma radiance_L7_6H:
  "fst (radiance lu_example
         (band_example (Some ''6H'') (Some (scene_attrs.truncate scene_L7)) (Some (meta scene_L7)))) =
   Inr \<lparr>shape = [1, 1], dtype = ''float64'', elems = [14]\<rparr>"
  by (simp add: radiance_def meta_truthy_def scene_L7_def band_spacecraft_def
      band_newmetaformat_def scene_attrs.truncate_def radiance_minmax_def band_lookup_def
      lookup2_def bandstr_old_def replace_char_def lu_example_def gainbias_spec_def
      dn2rad_spec_def data_def ReadAsArray_def ds_one_def typecode_name_def array_map_def)

lemma radiance_L8_10:
  "fst (radiance lu_example
         (band_example (Some ''10'') (Some (scene_attrs.truncate scene_L8)) (Some (meta scene_L8)))) =
   Inr \<lparr>shape = [1, 1], dtype = ''float64'', elems = [22]\<rparr>"
  by (simp add: radiance_def meta_truthy_def scene_L8_def band_spacecraft_def
      scene_attrs.truncate_def band_lookup_def fmt_band_def
      lookup2_def lu_example_def Let_def
      dn2rad_spec_def data_def ReadAsArray_def ds_one_def typecode_name_def array_map_def)

theorem tKelvin_constants_witness:
  "fst (tKelvin lu_example world_example
         (band_example (Some ''6H'') (Some (scene_attrs.truncate scene_L7)) (Some (meta scene_L7)))) =
     (case rad2kelvin_spec \<lparr>shape = [1, 1], dtype = ''float64'', elems = [14]\<rparr>
             (MNum 666.09) (MNum 1282.71) of
        Inl e \<Rightarrow> Inl e | Inr t \<Rightarrow> Inr (Some t))
   \<and> fst (tKelvin lu_example world_example
         (band_example (Some ''10'') (Some (scene_attrs.truncate scene_L8)) (Some (meta scene_L8)))) =
     (case rad2kelvin_spec \<lparr>shape = [1, 1], dtype = ''float64'', elems = [22]\<rparr>
             (MNum 774.89) (MNum 1321.08) of
        Inl e \<Rightarrow> Inl e | Inr t \<Rightarrow> Inr (Some t))"
proof
  let ?B = "band_example (Some ''6H'') (Some (scene_attrs.truncate scene_L7)) (Some (meta scene_L7))"
  have k: "getKconstants lu_example ''L7'' = Inr (MNum 666.09, MNum 1282.71)"
    by (simp add: lu_example_def getKconstants_example_def)
  have r: "rad2kelvin lu_example = rad2kelvin_spec" by (simp add: lu_example_def)
  have sp: "spacecraft (scene_attrs.truncate scene_L7) = ''L7''"
    by (simp add: scene_attrs.truncate_def scene_L7_def)
  have h: "scene ?B = Some (scene_attrs.truncate scene_L7) \<and> band ?B = Some ''6H'' \<and>
      startswith ''6H'' ''6'' \<and>
      (spacecraft (scene_attrs.truncate scene_L7) = ''L4'' \<or>
       spacecraft (scene_attrs.truncate scene_L7) = ''L5'' \<or>
       spacecraft (scene_attrs.truncate scene_L7) = ''L7'')"
    by (simp add: startswith_def sp)
  from tKelvin_constants [of ?B "scene_attrs.truncate scene_L7" "''6H''" lu_example world_example] h
  have "fst (tKelvin lu_example world_example ?B) =
        (case getKconstants lu_example (spacecraft (scene_attrs.truncate scene_L7)) of
           Inl e \<Rightarrow> Inl e
         | Inr ks \<Rightarrow>
             (case fst (radiance lu_example ?B) of
                Inl e \<Rightarrow> Inl e
              | Inr rad \<Rightarrow>
                  (case rad2kelvin lu_example rad (fst ks) (snd ks) of
                     Inl e \<Rightarrow> Inl e
                   | Inr t \<Rightarrow> Inr (Some t))))"
    by blast
  then show "fst (tKelvin lu_example world_example ?B) =
     (case rad2kelvin_spec \<lparr>shape = [1, 1], dtype = ''float64'', elems = [14]\<rparr>
             (MNum 666.09) (MNum 1282.71) of
        Inl e \<Rightarrow> Inl e | Inr t \<Rightarrow> Inr (Some t))"
    by (simp add: sp k r radiance_L7_6H)
next
  let ?B = "band_example (Some ''10'') (Some (scene_attrs.truncate scene_L8)) (Some (meta scene_L8))"
  have r: "rad2kelvin lu_example = rad2kelvin_spec" by (simp add: lu_example_def)
  have l1: "band_lookup ?B ''TIRS_THERMAL_CONSTANTS'' (''K1_CONSTANT_BAND_'' @ ''10'') = Inr (MNum 774.89)"
    by (simp add: band_lookup_def lookup2_def scene_L8_def)
  have l2: "band_lookup ?B ''TIRS_THERMAL_CONSTANTS'' (''K2_CONSTANT_BAND_'' @ ''10'') = Inr (MNum 1321.08)"
    by (simp add: band_lookup_def lookup2_def scene_L8_def)
  have h: "scene ?B = Some (scene_attrs.truncate scene_L8) \<and> band ?B = Some ''10'' \<and>
      spacecraft (scene_attrs.truncate scene_L8) = ''L8'' \<and> (''10'' = ''10'' \<or> ''10'' = ''11'')"
    by (simp add: scene_attrs.truncate_def scene_L8_def)
  from tKelvin_constants [of ?B "scene_attrs.truncate scene_L8" "''10''" lu_example world_example] h
  have "fst (tKelvin lu_example world_example ?B) =
        (case band_lookup ?B ''TIRS_THERMAL_CONSTANTS'' (''K1_CONSTANT_BAND_'' @ ''10'') of
           Inl e \<Rightarrow> Inl e
         | Inr c1 \<Rightarrow>
             (case band_lookup ?B ''TIRS_THERMAL_CONSTANTS'' (''K2_CONSTANT_BAND_'' @ ''10'') of
                Inl e \<Rightarrow> Inl e
              | Inr c2 \<Rightarrow>
                  (case fst (radiance lu_example ?B) of
                     Inl e \<Rightarrow> Inl e
                   | Inr rad \<Rightarrow>
                       (case rad2kelvin lu_example rad c1 c2 of
                          Inl e \<Rightarrow> Inl e
                        | Inr t \<Rightarrow> Inr (Some t)))))"
    by blast
  then show "fst (tKelvin lu_example world_example ?B) =
     (case rad2kelvin_spec \<lparr>shape = [1, 1], dtype = ''float64'', elems = [22]\<rparr>
             (MNum 774.89) (MNum 1321.08) of
        Inl e \<Rightarrow> Inl e | Inr t \<Rightarrow> Inr (Some t))"
    by (simp only: l1 l2 r radiance_L8_10 sum.case)
qed

subsection \<open>Band access on a scene\<close>

lemma partition_band: "partition_str (''band'' @ t) ''band'' = ([], ''band'', t)"
  by (simp add: partition_str_def)

lemma lower_band: "lower (''band'' @ x) = ''band'' @ lower x"
  by (simp add: lower_def lower_char_def)

lemma splitext_B5: "splitext ''B5.TIF'' = (''B5'', ''.TIF'')"
  by (simp add: splitext_def rfind_def)

lemma getattr_split:
  "Landsatscene_getattr P w s (''band'' @ x) =
     (if upper (lower x) \<in> set (permissiblebands s) then resolve_band w s (upper (lower x))
      else (Inl (PygaarstRasterError
              (unsupported_band_message (spacecraft s) (upper (lower x)) (permissiblebands s))), s, w))"
  by (simp only: Landsatscene_getattr_def lower_band partition_band Let_def fst_conv snd_conv) simp

lemma getattr_band:
  "Landsatscene_getattr P w s (''band'' @ x) =
     (if upper x \<in> set (permissiblebands s) then resolve_band w s (upper x)
      else (Inl (PygaarstRasterError
              (unsupported_band_message (spacecraft s) (upper x) (permissiblebands s))), s, w))"
  by (simp only: getattr_split upper_lower)

lemma instance_dict_band: "instance_dict s (''band'' @ X) = (if X = ''s'' then Some (VBands (bands s)) else None)"
  by (simp add: instance_dict_def)

lemma instance_dict_not_band: "instance_dict s name \<noteq> Some (VBand b)"
  by (auto simp add: instance_dict_def split: if_splits)

lemma lookup_band_name:
  assumes "X \<noteq> ''s''"
  shows "object_getattribute P w s (''band'' @ X) =
           (Inl (AttributeError (''Landsatscene object has no attribute '' @ ''band'' @ X)), s, w)"
proof -
  have 1: "''band'' @ X \<notin> set property_names" by (simp add: property_names_def)
  have 2: "''band'' @ X \<notin> set method_names" by (simp add: method_names_def)
  have 3: "\<not> startswith (''band'' @ X) ''__''" by (simp add: startswith_def)
  have 4: "instance_dict s (''band'' @ X) = None" using assms by (simp only: instance_dict_band if_False)
  show ?thesis by (simp only: object_getattribute_def 1 2 3 4 if_False option.case simp_thms)
qed

lemma access_band_name:
  assumes "X \<noteq> ''s''"
  shows "scene_attribute P w s (''band'' @ X) = Landsatscene_getattr P w s (''band'' @ X)"
  by (simp only: scene_attribute_def lookup_band_name [OF assms] prod.case sum.case
      is_AttributeError_def error.case if_True)

lemma property_heads:
  assumes "name \<in> set property_names"
  shows "fst (partition_str (lower name) ''band'') \<noteq> []"
proof -
  have "fst (partition_str (lower ''NDVI'') ''band'') \<noteq> []"
    "fst (partition_str (lower ''NBR'') ''band'') \<noteq> []"
    "fst (partition_str (lower ''ltkcloud'') ''band'') \<noteq> []"
    "fst (partition_str (lower ''naivecloud'') ''band'') \<noteq> []"
    by (simp_all add: partition_str_def lower_def lower_char_def char_of_eq_iff)
  with assms show ?thesis by (auto simp add: property_names_def)
qed

lemma lookup_state:
  assumes "name \<notin> set property_names"
  shows "snd (object_getattribute P w s name) = (s, w)"
  using assms by (simp add: object_getattribute_def split: option.splits)

lemma normalized_index_not_band:
  "fst (normalized_index P lu w s table what) \<noteq> Inr (VBand b)"
  by (auto simp add: normalized_index_def split: option.splits prod.splits sum.splits)

lemma properties_not_band: "fst (properties lu n name w s) \<noteq> Inr (VBand b)"
proof (cases n)
  case 0
  then show ?thesis by simp
next
  case (Suc d)
  have l: "fst (ltkcloud_getter lu w s) \<noteq> Inr (VBand b)"
    by (auto simp add: ltkcloud_getter_def split: prod.splits sum.splits)
  have c: "fst (naivecloud_getter (properties lu d) lu w s) \<noteq> Inr (VBand b)"
    by (auto simp add: naivecloud_getter_def split: prod.splits sum.splits)
  from Suc l c show ?thesis by (simp add: normalized_index_not_band)
qed

lemma lookup_not_band: "fst (object_getattribute (properties lu n) w s name) \<noteq> Inr (VBand b)"
  using properties_not_band [of lu n name w s b] instance_dict_not_band [of s name b]
  by (auto simp add: object_getattribute_def split: option.splits)

lemma GeoTIFF_init_nextid: "nextid (snd (GeoTIFF_init w p)) = nextid w"
  by (simp add: GeoTIFF_init_def logging_def split: sum.splits)

lemma Landsatband_init_fresh:
  assumes "Landsatband_init w p l sc = (Inr b, w')"
  shows "oid b = nextid w \<and> nextid w' = Suc (nextid w) \<and> band b = l \<and> scene b = sc"
proof -
  let ?m = "case sc of None \<Rightarrow> None | Some s \<Rightarrow> Some (meta s)"
  let ?w1 = "if \<not> meta_truthy ?m
                then logging WARNING
                  (''Could not find metadata for band object. Set it explicitly: '' @
                   ''[bandobject].meta = pygaarst.landsatutils.parsemeta([metadatafile])'') w
                else w"
  have n1: "nextid ?w1 = nextid w" by (simp add: logging_def)
  obtain r w2 where g: "GeoTIFF_init ?w1 p = (r, w2)" by (cases "GeoTIFF_init ?w1 p")
  then have n2: "nextid w2 = nextid w" using GeoTIFF_init_nextid [of ?w1 p] n1 by simp
  from assms g obtain gt where r: "r = Inr gt"
    by (cases r) (simp_all add: Landsatband_init_def Let_def)
  from assms g r have b: "b = geotiff.extend gt (landsatband.fields l sc ?m None None None None (nextid w2))"
    and w': "w' = w2\<lparr>nextid := nextid w2 + 1\<rparr>"
    by (simp_all add: Landsatband_init_def Let_def)
  from b w' n2 show ?thesis
    by (simp add: geotiff.extend_def landsatband.fields_def landsatband.defs geotiff.defs)
qed

lemma open_band_fresh:
  assumes "open_band w s l v = (Inr (VBand b), s', w')"
  shows "oid b = nextid w \<and> nextid w' = Suc (nextid w) \<and> band b = Some l \<and>
         bands s' = (bands s)(l \<mapsto> b)"
proof (cases v)
  case (MStr bandfn)
  let ?p = "path_join (dirname s) (fst (splitext bandfn) @ infix_str s @ snd (splitext bandfn))"
  obtain r w2 where m: "Landsatband_init w ?p (Some l) (Some (scene_attrs.truncate s)) = (r, w2)"
    by (cases "Landsatband_init w ?p (Some l) (Some (scene_attrs.truncate s))")
  from assms MStr m have r: "r = Inr b" and w2: "w2 = w'" and s': "s' = s\<lparr>bands := (bands s)(l \<mapsto> b)\<rparr>"
    by (auto simp add: open_band_def Let_def split: sum.splits)
  from Landsatband_init_fresh [of w ?p "Some l" "Some (scene_attrs.truncate s)" b w'] m r w2 s'
  show ?thesis by simp
next
  case (MNum x)
  with assms show ?thesis by (simp add: open_band_def)
next
  case (MDate y m d)
  with assms show ?thesis by (simp add: open_band_def)
qed

lemma truncate_bands [simp]: "scene_attrs.truncate (s\<lparr>bands := m\<rparr>) = scene_attrs.truncate s"
  by (simp add: scene_attrs.truncate_def)

lemma truncate_sel [simp]:
  "meta (scene_attrs.truncate s) = meta s"
  "spacecraft (scene_attrs.truncate s) = spacecraft s"
  "newmetaformat (scene_attrs.truncate s) = newmetaformat s"
  by (simp_all add: scene_attrs.truncate_def)

lemma open_band_found:
  assumes "path_join (dirname s) (fst (splitext fn) @ infix_str s @ snd (splitext fn)) = p"
    and "files w p = Some d" and "meta s \<noteq> []"
  shows "open_band w s l (MStr fn) =
           (Inr (VBand (new_band d p l (scene_attrs.truncate s) (nextid w))),
            s\<lparr>bands := (bands s)(l \<mapsto> new_band d p l (scene_attrs.truncate s) (nextid w))\<rparr>,
            w\<lparr>nextid := nextid w + 1\<rparr>)"
proof -
  from assms(3) have t: "meta_truthy (Some (meta s))"
    by (cases "meta s") (simp_all add: meta_truthy_def)
  from assms(2) have g: "GeoTIFF_init w p = (Inr (geotiff_of d p), w)"
    by (simp add: GeoTIFF_init_def gdal_Open_def)
  have "Landsatband_init w p (Some l) (Some (scene_attrs.truncate s)) =
          (Inr (new_band d p l (scene_attrs.truncate s) (nextid w)), w\<lparr>nextid := nextid w + 1\<rparr>)"
    by (simp add: Landsatband_init_def t g new_band_def)
  with assms(1) show ?thesis
    by (simp add: open_band_def Let_def)
qed

lemma open_band_missing:
  assumes "path_join (dirname s) (fst (splitext fn) @ infix_str s @ snd (splitext fn)) = p"
    and "files w p = None" and "meta s \<noteq> []"
  shows "open_band w s l (MStr fn) =
           (Inl (RuntimeError (p @ '': No such file or directory'')), s,
            w\<lparr>log := log w @ [(ERROR, ''Could not open '' @ p @ '': '' @ p @ '': No such file or directory'')]\<rparr>)"
proof -
  from assms(3) have t: "meta_truthy (Some (meta s))"
    by (cases "meta s") (simp_all add: meta_truthy_def)
  from assms(2) have g: "GeoTIFF_init w p =
      (Inl (RuntimeError (p @ '': No such file or directory'')),
       w\<lparr>log := log w @ [(ERROR, ''Could not open '' @ p @ '': '' @ p @ '': No such file or directory'')]\<rparr>)"
    by (simp add: GeoTIFF_init_def gdal_Open_def logging_def)
  have "Landsatband_init w p (Some l) (Some (scene_attrs.truncate s)) =
      (Inl (RuntimeError (p @ '': No such file or directory'')),
       w\<lparr>log := log w @ [(ERROR, ''Could not open '' @ p @ '': '' @ p @ '': No such file or directory'')]\<rparr>)"
    by (simp add: Landsatband_init_def t g)
  with assms(1) show ?thesis
    by (simp add: open_band_def Let_def)
qed

lemma open_band_constructed:
  assumes o: "open_band w s l v = (Inr (VBand b), s', w')" and m: "meta s \<noteq> []"
  shows "\<exists>fn d. v = MStr fn \<and>
           files w (path_join (dirname s) (fst (splitext fn) @ infix_str s @ snd (splitext fn))) = Some d \<and>
           b = new_band d (path_join (dirname s) (fst (splitext fn) @ infix_str s @ snd (splitext fn)))
                 l (scene_attrs.truncate s) (nextid w) \<and>
           s' = s\<lparr>bands := (bands s)(l \<mapsto> b)\<rparr> \<and> w' = w\<lparr>nextid := nextid w + 1\<rparr>"
proof (cases v)
  case (MStr fn)
  let ?p = "path_join (dirname s) (fst (splitext fn) @ infix_str s @ snd (splitext fn))"
  show ?thesis
  proof (cases "files w ?p")
    case None
    from open_band_missing [OF refl None m, of l] o MStr show ?thesis by simp
  next
    case (Some d)
    from open_band_found [OF refl Some m, of l] o MStr Some show ?thesis by auto
  qed
next
  case (MNum x)
  with o show ?thesis by (simp add: open_band_def)
next
  case (MDate y mo d)
  with o show ?thesis by (simp add: open_band_def)
qed

lemma lookup2_meta: "lookup2 m g k = Inr v \<Longrightarrow> m \<noteq> []"
  by (auto simp add: lookup2_def)

lemma truncate_sel2 [simp]:
  "dirname (scene_attrs.truncate s) = dirname s"
  "infix_str (scene_attrs.truncate s) = infix_str s"
  "permissiblebands (scene_attrs.truncate s) = permissiblebands s"
  by (simp_all add: scene_attrs.truncate_def)

lemma keynames:
  "band_keyname True ''6L'' = ''FILE_NAME_BAND_6_VCID_1''"
  "band_keyname False ''6L'' = ''BAND61_FILE_NAME''"
  "band_keyname True ''6H'' = ''FILE_NAME_BAND_6_VCID_2''"
  "band_keyname False ''6H'' = ''BAND62_FILE_NAME''"
  by (simp_all add: band_keyname_def bandstr_new_def bandstr_old_def replace_char_def)

lemma upper_labels: "upper ''6L'' = ''6L''" "upper ''6H'' = ''6H''" "upper ''5'' = ''5''"
  "upper ''4'' = ''4''" "upper ''7'' = ''7''" "upper ''99'' = ''99''"
  by (simp_all add: upper_def upper_char_def)

text \<open>
  Claim C2, as amended. The access of \<^verbatim>\<open>band\<close> followed by \<open>X\<close>, for a permissible label \<open>X\<close>
  (in any letter case) whose key in \<^verbatim>\<open>PRODUCT_METADATA\<close> holds a file name, and whose file
  (the name with the scene's insert before its extension, in the scene's directory) is on
  disk, opens that file, constructs a new Landsatband over it for that label and this
  scene, with the identity the world hands out next, stores it in the scene's mapping
  under the label, replacing whatever was stored there, and returns it. The outcome is
  the same whatever the mapping holds: it is written and never read, so the first access
  and every later one alike construct a band. Conversely, every access on a scene that
  returns a band is of this kind: the name is \<^verbatim>\<open>band\<close> and a permissible label, the key of
  that label has been read, the file it names has been opened, and the band returned is
  the one just constructed and stored.
\<close>

theorem band_access_constructs:
  "(X \<noteq> ''s'' \<and> upper X \<in> set (permissiblebands s) \<and>
    lookup2 (meta s) ''PRODUCT_METADATA'' (band_keyname (newmetaformat s) (upper X)) = Inr (MStr fn) \<and>
    path_join (dirname s) (fst (splitext fn) @ infix_str s @ snd (splitext fn)) = p \<and>
    files w p = Some d \<longrightarrow>
      scene_attribute P w s (''band'' @ X) =
        (Inr (VBand (new_band d p (upper X) (scene_attrs.truncate s) (nextid w))),
         s\<lparr>bands := (bands s)(upper X \<mapsto> new_band d p (upper X) (scene_attrs.truncate s) (nextid w))\<rparr>,
         w\<lparr>nextid := nextid w + 1\<rparr>))
   \<and> (scene_attribute (properties lu n) w s name = (Inr (VBand b), s', w') \<and>
      l = upper (snd (snd (partition_str (lower name) ''band''))) \<longrightarrow>
      fst (partition_str (lower name) ''band'') = [] \<and> l \<in> set (permissiblebands s) \<and>
      (\<exists>fn d. lookup2 (meta s) ''PRODUCT_METADATA'' (band_keyname (newmetaformat s) l) =
                 Inr (MStr fn) \<and>
         files w (path_join (dirname s) (fst (splitext fn) @ infix_str s @ snd (splitext fn))) =
           Some d \<and>
         b = new_band d (path_join (dirname s) (fst (splitext fn) @ infix_str s @ snd (splitext fn)))
               l (scene_attrs.truncate s) (nextid w) \<and>
         s' = s\<lparr>bands := (bands s)(l \<mapsto> b)\<rparr> \<and> w' = w\<lparr>nextid := nextid w + 1\<rparr>))"
proof (rule conjI [OF impI impI])
  assume a: "X \<noteq> ''s'' \<and> upper X \<in> set (permissiblebands s) \<and>
    lookup2 (meta s) ''PRODUCT_METADATA'' (band_keyname (newmetaformat s) (upper X)) = Inr (MStr fn) \<and>
    path_join (dirname s) (fst (splitext fn) @ infix_str s @ snd (splitext fn)) = p \<and>
    files w p = Some d"
  then have x: "X \<noteq> ''s''" and u: "upper X \<in> set (permissiblebands s)"
    and k: "lookup2 (meta s) ''PRODUCT_METADATA'' (band_keyname (newmetaformat s) (upper X)) =
              Inr (MStr fn)"
    and p: "path_join (dirname s) (fst (splitext fn) @ infix_str s @ snd (splitext fn)) = p"
    and f: "files w p = Some d"
    by simp_all
  from k have m: "meta s \<noteq> []" by (rule lookup2_meta)
  have "scene_attribute P w s (''band'' @ X) = resolve_band w s (upper X)"
    using u by (simp only: access_band_name [OF x] getattr_band if_True)
  also have "\<dots> = open_band w s (upper X) (MStr fn)"
    by (simp only: resolve_band_def k sum.case)
  finally show "scene_attribute P w s (''band'' @ X) =
        (Inr (VBand (new_band d p (upper X) (scene_attrs.truncate s) (nextid w))),
         s\<lparr>bands := (bands s)(upper X \<mapsto> new_band d p (upper X) (scene_attrs.truncate s) (nextid w))\<rparr>,
         w\<lparr>nextid := nextid w + 1\<rparr>)"
    by (simp only: open_band_found [OF p f m])
next
  assume a: "scene_attribute (properties lu n) w s name = (Inr (VBand b), s', w') \<and>
      l = upper (snd (snd (partition_str (lower name) ''band'')))"
  let ?P = "properties lu n"
  obtain r s1 w1 where og: "object_getattribute ?P w s name = (r, s1, w1)"
    by (cases "object_getattribute ?P w s name")
  with lookup_not_band [of lu n w s name b] have nb: "r \<noteq> Inr (VBand b)" by simp
  from a og nb have g: "Landsatscene_getattr ?P w1 s1 name = (Inr (VBand b), s', w')"
    by (cases r) (auto simp add: scene_attribute_def split: if_splits)
  have h: "fst (partition_str (lower name) ''band'') = []"
  proof (rule ccontr)
    assume "fst (partition_str (lower name) ''band'') \<noteq> []"
    with g have "object_getattribute ?P w1 s1 name = (Inr (VBand b), s', w')"
      by (simp add: Landsatscene_getattr_def Let_def)
    with lookup_not_band [of lu n w1 s1 name b] show False by simp
  qed
  with property_heads [of name] have "name \<notin> set property_names" by blast
  from lookup_state [OF this, of ?P w s] og have st: "s1 = s" "w1 = w" by simp_all
  from g h st a have pl: "l \<in> set (permissiblebands s)"
    and r: "resolve_band w s l = (Inr (VBand b), s', w')"
    by (auto simp add: Landsatscene_getattr_def Let_def split: if_splits)
  from r obtain v where
    k: "lookup2 (meta s) ''PRODUCT_METADATA'' (band_keyname (newmetaformat s) l) = Inr v"
    and o: "open_band w s l v = (Inr (VBand b), s', w')"
    by (auto simp add: resolve_band_def split: sum.splits)
  from k have m: "meta s \<noteq> []" by (rule lookup2_meta)
  from open_band_constructed [OF o m] k h pl
  show "fst (partition_str (lower name) ''band'') = [] \<and> l \<in> set (permissiblebands s) \<and>
      (\<exists>fn d. lookup2 (meta s) ''PRODUCT_METADATA'' (band_keyname (newmetaformat s) l) =
                 Inr (MStr fn) \<and>
         files w (path_join (dirname s) (fst (splitext fn) @ infix_str s @ snd (splitext fn))) =
           Some d \<and>
         b = new_band d (path_join (dirname s) (fst (splitext fn) @ infix_str s @ snd (splitext fn)))
               l (scene_attrs.truncate s) (nextid w) \<and>
         s' = s\<lparr>bands := (bands s)(l \<mapsto> b)\<rparr> \<and> w' = w\<lparr>nextid := nextid w + 1\<rparr>)"
    by auto
qed

text \<open>
  Claim C1, as amended. Where 6L is a permissible label, the access \<^verbatim>\<open>band6L\<close> reads the
  file name from the \<^verbatim>\<open>PRODUCT_METADATA\<close> key \<^verbatim>\<open>FILE_NAME_BAND_6_VCID_1\<close> in the new format and
  \<^verbatim>\<open>BAND61_FILE_NAME\<close> in the legacy format; where 6H is permissible, \<^verbatim>\<open>band6H\<close> reads
  \<^verbatim>\<open>FILE_NAME_BAND_6_VCID_2\<close> and \<^verbatim>\<open>BAND62_FILE_NAME\<close>. The band number 6 stays in the key: only
  the letter is replaced. A missing key is the KeyError of that key, a value found is
  opened as the band's file.
\<close>

theorem band6_keys:
  "(''6L'' \<in> set (permissiblebands s) \<longrightarrow>
      scene_attribute P w s ''band6L'' =
        (case lookup2 (meta s) ''PRODUCT_METADATA''
                (if newmetaformat s then ''FILE_NAME_BAND_6_VCID_1'' else ''BAND61_FILE_NAME'') of
           Inl e \<Rightarrow> (Inl e, s, w)
         | Inr v \<Rightarrow> open_band w s ''6L'' v))
   \<and> (''6H'' \<in> set (permissiblebands s) \<longrightarrow>
      scene_attribute P w s ''band6H'' =
        (case lookup2 (meta s) ''PRODUCT_METADATA''
                (if newmetaformat s then ''FILE_NAME_BAND_6_VCID_2'' else ''BAND62_FILE_NAME'') of
           Inl e \<Rightarrow> (Inl e, s, w)
         | Inr v \<Rightarrow> open_band w s ''6H'' v))"
proof (intro conjI impI)
  assume p: "''6L'' \<in> set (permissiblebands s)"
  have i: "scene_attribute P w s ''band6L'' = Landsatscene_getattr P w s ''band6L''"
    using access_band_name [of "''6L''" P w s] by simp
  have g: "Landsatscene_getattr P w s ''band6L'' = resolve_band w s ''6L''"
    using getattr_band [of P w s "''6L''"] p by (simp add: upper_labels)
  show "scene_attribute P w s ''band6L'' =
        (case lookup2 (meta s) ''PRODUCT_METADATA''
                (if newmetaformat s then ''FILE_NAME_BAND_6_VCID_1'' else ''BAND61_FILE_NAME'') of
           Inl e \<Rightarrow> (Inl e, s, w)
         | Inr v \<Rightarrow> open_band w s ''6L'' v)"
    by (cases "newmetaformat s") (simp_all add: i g resolve_band_def keynames)
next
  assume p: "''6H'' \<in> set (permissiblebands s)"
  have i: "scene_attribute P w s ''band6H'' = Landsatscene_getattr P w s ''band6H''"
    using access_band_name [of "''6H''" P w s] by simp
  have g: "Landsatscene_getattr P w s ''band6H'' = resolve_band w s ''6H''"
    using getattr_band [of P w s "''6H''"] p by (simp add: upper_labels)
  show "scene_attribute P w s ''band6H'' =
        (case lookup2 (meta s) ''PRODUCT_METADATA''
                (if newmetaformat s then ''FILE_NAME_BAND_6_VCID_2'' else ''BAND62_FILE_NAME'') of
           Inl e \<Rightarrow> (Inl e, s, w)
         | Inr v \<Rightarrow> open_band w s ''6H'' v)"
    by (cases "newmetaformat s") (simp_all add: i g resolve_band_def keynames)
qed

text \<open>
  Claim C6. \<^verbatim>\<open>__getattr__\<close>, called with the name \<^verbatim>\<open>band\<close> followed by \<open>X\<close>, raises a
  PygaarstRasterError when \<open>X\<close> in upper case is not a permissible label; the message names
  the spacecraft and the label and lists every permissible label, separated by commas.
  The attribute access of such a name on a scene raises that very error (\<^verbatim>\<open>bands\<close>, the
  scene's own attribute, is not a band access). Nothing is logged and nothing is stored.
\<close>

theorem unsupported_band_raises:
  "(upper X \<notin> set (permissiblebands s) \<longrightarrow>
      Landsatscene_getattr P w s (''band'' @ X) =
        (Inl (PygaarstRasterError
           (''Spacecraft '' @ spacecraft s @ '' does not have a band '' @ upper X @
            ''. Permissible band labels are '' @ join '', '' (permissiblebands s) @ ''.'')), s, w))
   \<and> (upper X \<notin> set (permissiblebands s) \<and> X \<noteq> ''s'' \<longrightarrow>
      scene_attribute P w s (''band'' @ X) =
        (Inl (PygaarstRasterError
           (''Spacecraft '' @ spacecraft s @ '' does not have a band '' @ upper X @
            ''. Permissible band labels are '' @ join '', '' (permissiblebands s) @ ''.'')), s, w))"
proof (intro conjI impI)
  assume "upper X \<notin> set (permissiblebands s)"
  then show "Landsatscene_getattr P w s (''band'' @ X) =
        (Inl (PygaarstRasterError
           (''Spacecraft '' @ spacecraft s @ '' does not have a band '' @ upper X @
            ''. Permissible band labels are '' @ join '', '' (permissiblebands s) @ ''.'')), s, w)"
    by (simp only: getattr_band unsupported_band_message_def if_False)
next
  assume a: "upper X \<notin> set (permissiblebands s) \<and> X \<noteq> ''s''"
  then have x: "X \<noteq> ''s''" by simp
  from a show "scene_attribute P w s (''band'' @ X) =
        (Inl (PygaarstRasterError
           (''Spacecraft '' @ spacecraft s @ '' does not have a band '' @ upper X @
            ''. Permissible band labels are '' @ join '', '' (permissiblebands s) @ ''.'')), s, w)"
    by (simp only: access_band_name [OF x] getattr_band unsupported_band_message_def if_False)
qed

lemma splitext_names:
  "splitext ''B4.TIF'' = (''B4'', ''.TIF'')" "splitext ''B7.TIF'' = (''B7'', ''.TIF'')"
  "splitext ''B62.TIF'' = (''B62'', ''.TIF'')"
  by (simp_all add: splitext_def rfind_def)

lemma L8_attrs:
  assumes "scene_attrs.truncate s = scene_attrs.truncate scene_L8"
  shows "meta s = meta scene_L8" "dirname s = ''/data/LC8''" "infix_str s = []"
    "newmetaformat s" "spacecraft s = ''L8''"
    "permissiblebands s = [''1'', ''2'', ''3'', ''4'', ''5'', ''6'', ''7'', ''8'', ''9'', ''10'', ''11'']"
proof -
  have "meta (scene_attrs.truncate s) = meta (scene_attrs.truncate scene_L8)"
    "dirname (scene_attrs.truncate s) = dirname (scene_attrs.truncate scene_L8)"
    "infix_str (scene_attrs.truncate s) = infix_str (scene_attrs.truncate scene_L8)"
    "newmetaformat (scene_attrs.truncate s) = newmetaformat (scene_attrs.truncate scene_L8)"
    "spacecraft (scene_attrs.truncate s) = spacecraft (scene_attrs.truncate scene_L8)"
    "permissiblebands (scene_attrs.truncate s) = permissiblebands (scene_attrs.truncate scene_L8)"
    using assms by simp_all
  then show "meta s = meta scene_L8" "dirname s = ''/data/LC8''" "infix_str s = []"
    "newmetaformat s" "spacecraft s = ''L8''"
    "permissiblebands s = [''1'', ''2'', ''3'', ''4'', ''5'', ''6'', ''7'', ''8'', ''9'', ''10'', ''11'']"
    by (simp_all add: scene_L8_def)
qed

lemma L8_lookup:
  "lookup2 (meta scene_L8) ''PRODUCT_METADATA'' (band_keyname True ''5'') = Inr (MStr ''B5.TIF'')"
  "lookup2 (meta scene_L8) ''PRODUCT_METADATA'' (band_keyname True ''4'') = Inr (MStr ''B4.TIF'')"
  "lookup2 (meta scene_L8) ''PRODUCT_METADATA'' (band_keyname True ''7'') = Inr (MStr ''B7.TIF'')"
  "meta scene_L8 \<noteq> []"
  by (simp_all add: scene_L8_def band_keyname_def bandstr_new_def replace_char_def lookup2_def)

lemma L8_paths:
  "path_join ''/data/LC8'' ''B5.TIF'' = ''/data/LC8/B5.TIF''"
  "path_join ''/data/LC8'' ''B4.TIF'' = ''/data/LC8/B4.TIF''"
  "path_join ''/data/LC8'' ''B7.TIF'' = ''/data/LC8/B7.TIF''"
  by (simp_all add: path_join_def startswith_def endswith_def)

lemma example_files:
  "files world_example ''/data/LC8/B5.TIF'' = Some ds_one"
  "files world_example ''/data/LC8/B4.TIF'' = Some ds_one"
  "files world_example ''/data/LC8/B7.TIF'' = None"
  "files world_example ''/data/LE7/B62.TIF'' = Some ds_one"
  "files world_example ''/data/two.tif'' = Some ds_two"
  by (simp_all add: world_example_def)

lemma L8_band5:
  assumes t: "scene_attrs.truncate s = scene_attrs.truncate scene_L8"
    and f: "files w = files world_example"
  shows "scene_attribute P w s ''band5'' =
     (Inr (VBand (new_band ds_one ''/data/LC8/B5.TIF'' ''5'' (scene_attrs.truncate scene_L8) (nextid w))),
      s\<lparr>bands := (bands s)(''5'' \<mapsto>
           new_band ds_one ''/data/LC8/B5.TIF'' ''5'' (scene_attrs.truncate scene_L8) (nextid w))\<rparr>,
      w\<lparr>nextid := nextid w + 1\<rparr>)"
proof -
  note a = L8_attrs [OF t]
  have i: "scene_attribute P w s ''band5'' = Landsatscene_getattr P w s ''band5''"
    using access_band_name [of "''5''" P w s] by simp
  have g: "Landsatscene_getattr P w s ''band5'' = resolve_band w s ''5''"
    using getattr_band [of P w s "''5''"] by (simp add: upper_labels a)
  have p: "path_join (dirname s) (fst (splitext ''B5.TIF'') @ infix_str s @ snd (splitext ''B5.TIF'')) =
      ''/data/LC8/B5.TIF''"
    by (simp add: a splitext_B5 L8_paths)
  have fl: "files w ''/data/LC8/B5.TIF'' = Some ds_one" by (simp add: f example_files)
  have m: "meta s \<noteq> []" by (simp add: a L8_lookup)
  have r: "resolve_band w s ''5'' = open_band w s ''5'' (MStr ''B5.TIF'')"
    by (simp add: resolve_band_def a L8_lookup)
  show ?thesis
    by (simp only: i g r open_band_found [OF p fl m] t)
qed

lemma first_access_eq:
  "first_access =
     (Inr (VBand (new_band ds_one ''/data/LC8/B5.TIF'' ''5'' (scene_attrs.truncate scene_L8) 0)),
      scene_L8\<lparr>bands := (bands scene_L8)(''5'' \<mapsto>
           new_band ds_one ''/data/LC8/B5.TIF'' ''5'' (scene_attrs.truncate scene_L8) 0)\<rparr>,
      world_example\<lparr>nextid := 1\<rparr>)"
proof -
  have n: "nextid world_example = 0" by (simp add: world_example_def)
  show ?thesis
    using L8_band5 [of scene_L8 world_example "properties lu_example 1"]
    by (simp add: first_access_def n)
qed

lemma second_access_eq:
  "second_access =
     (Inr (VBand (new_band ds_one ''/data/LC8/B5.TIF'' ''5'' (scene_attrs.truncate scene_L8) 1)),
      scene_L8\<lparr>bands := (bands scene_L8)(''5'' \<mapsto>
           new_band ds_one ''/data/LC8/B5.TIF'' ''5'' (scene_attrs.truncate scene_L8) 1)\<rparr>,
      world_example\<lparr>nextid := 2\<rparr>)"
proof -
  let ?s1 = "scene_L8\<lparr>bands := (bands scene_L8)(''5'' \<mapsto>
           new_band ds_one ''/data/LC8/B5.TIF'' ''5'' (scene_attrs.truncate scene_L8) 0)\<rparr>"
  let ?w1 = "world_example\<lparr>nextid := 1\<rparr>"
  have t: "scene_attrs.truncate ?s1 = scene_attrs.truncate scene_L8" by simp
  have f: "files ?w1 = files world_example" by simp
  have "second_access = scene_attribute (properties lu_example 1) ?w1 ?s1 ''band5''"
    by (simp add: second_access_def first_access_eq)
  also have "\<dots> = (Inr (VBand (new_band ds_one ''/data/LC8/B5.TIF'' ''5'' (scene_attrs.truncate scene_L8) (nextid ?w1))),
      ?s1\<lparr>bands := (bands ?s1)(''5'' \<mapsto>
           new_band ds_one ''/data/LC8/B5.TIF'' ''5'' (scene_attrs.truncate scene_L8) (nextid ?w1))\<rparr>,
      ?w1\<lparr>nextid := nextid ?w1 + 1\<rparr>)"
    by (rule L8_band5 [OF t f])
  finally show ?thesis by (simp add: numeral_2_eq_2)
qed

lemma new_band_oid [simp]: "oid (new_band d p l sc n) = n"
  by (simp add: new_band_def geotiff.extend_def landsatband.fields_def landsatband.defs geotiff.defs)

text \<open>
  Claim C2 as stated fails: the second access of \<^verbatim>\<open>band5\<close> on the same scene opens the file
  again and returns a second Landsatband (identity 1), not the one stored by the first
  access (identity 0); two bands have been constructed.
\<close>

theorem band_cached_counterexample:
  "fst first_access =
     Inr (VBand (new_band ds_one ''/data/LC8/B5.TIF'' ''5'' (scene_attrs.truncate scene_L8) 0)) \<and>
   fst second_access =
     Inr (VBand (new_band ds_one ''/data/LC8/B5.TIF'' ''5'' (scene_attrs.truncate scene_L8) 1)) \<and>
   fst second_access \<noteq> fst first_access \<and>
   nextid (snd (snd first_access)) = 1 \<and> nextid (snd (snd second_access)) = 2"
proof -
  have "new_band ds_one ''/data/LC8/B5.TIF'' ''5'' (scene_attrs.truncate scene_L8) 1 \<noteq>
        new_band ds_one ''/data/LC8/B5.TIF'' ''5'' (scene_attrs.truncate scene_L8) 0"
  proof
    assume "new_band ds_one ''/data/LC8/B5.TIF'' ''5'' (scene_attrs.truncate scene_L8) 1 =
        new_band ds_one ''/data/LC8/B5.TIF'' ''5'' (scene_attrs.truncate scene_L8) 0"
    then have "oid (new_band ds_one ''/data/LC8/B5.TIF'' ''5'' (scene_attrs.truncate scene_L8) 1) =
        oid (new_band ds_one ''/data/LC8/B5.TIF'' ''5'' (scene_attrs.truncate scene_L8) 0)"
      by simp
    then show False by simp
  qed
  then show ?thesis by (simp add: first_access_eq second_access_eq)
qed

lemma L8_fields:
  "dirname scene_L8 = ''/data/LC8''" "infix_str scene_L8 = []" "newmetaformat scene_L8"
  "''5'' \<in> set (permissiblebands scene_L8)" "nextid world_example = 0"
  by (simp_all add: scene_L8_def world_example_def)

theorem band_access_constructs_witness:
  "scene_attribute (properties lu_example 1) world_example scene_L8 ''band5'' =
     (Inr (VBand (new_band ds_one ''/data/LC8/B5.TIF'' ''5'' (scene_attrs.truncate scene_L8) 0)),
      scene_L8\<lparr>bands := (bands scene_L8)(''5'' \<mapsto>
         new_band ds_one ''/data/LC8/B5.TIF'' ''5'' (scene_attrs.truncate scene_L8) 0)\<rparr>,
      world_example\<lparr>nextid := 1\<rparr>)
   \<and> (\<exists>fn d. lookup2 (meta scene_L8) ''PRODUCT_METADATA''
                (band_keyname (newmetaformat scene_L8) ''5'') = Inr (MStr fn) \<and>
         files world_example
           (path_join (dirname scene_L8) (fst (splitext fn) @ infix_str scene_L8 @ snd (splitext fn))) =
           Some d \<and>
         new_band ds_one ''/data/LC8/B5.TIF'' ''5'' (scene_attrs.truncate scene_L8) 0 =
           new_band d
             (path_join (dirname scene_L8) (fst (splitext fn) @ infix_str scene_L8 @ snd (splitext fn)))
             ''5'' (scene_attrs.truncate scene_L8) (nextid world_example))
   \<and> scene_attribute (properties lu_example 1) (snd (snd first_access)) (fst (snd first_access))
         ''band5'' =
     (Inr (VBand (new_band ds_one ''/data/LC8/B5.TIF'' ''5'' (scene_attrs.truncate scene_L8) 1)),
      scene_L8\<lparr>bands := (bands scene_L8)(''5'' \<mapsto>
         new_band ds_one ''/data/LC8/B5.TIF'' ''5'' (scene_attrs.truncate scene_L8) 1)\<rparr>,
      world_example\<lparr>nextid := 2\<rparr>)"
proof -
  let ?P = "properties lu_example 1"
  let ?b0 = "new_band ds_one ''/data/LC8/B5.TIF'' ''5'' (scene_attrs.truncate scene_L8) 0"
  let ?s1 = "scene_L8\<lparr>bands := (bands scene_L8)(''5'' \<mapsto> ?b0)\<rparr>"
  let ?w1 = "world_example\<lparr>nextid := 1\<rparr>"
  have pa: "path_join (dirname scene_L8)
      (fst (splitext ''B5.TIF'') @ infix_str scene_L8 @ snd (splitext ''B5.TIF'')) = ''/data/LC8/B5.TIF''"
    by (simp add: L8_fields splitext_B5 L8_paths)
  have pa1: "path_join (dirname ?s1)
      (fst (splitext ''B5.TIF'') @ infix_str ?s1 @ snd (splitext ''B5.TIF'')) = ''/data/LC8/B5.TIF''"
    by (simp add: L8_fields splitext_B5 L8_paths)
  have lk: "lookup2 (meta scene_L8) ''PRODUCT_METADATA''
      (band_keyname (newmetaformat scene_L8) (upper ''5'')) = Inr (MStr ''B5.TIF'')"
    by (simp add: upper_labels L8_fields L8_lookup)
  have h1: "''5'' \<noteq> ''s'' \<and> upper ''5'' \<in> set (permissiblebands scene_L8) \<and>
    lookup2 (meta scene_L8) ''PRODUCT_METADATA''
      (band_keyname (newmetaformat scene_L8) (upper ''5'')) = Inr (MStr ''B5.TIF'') \<and>
    path_join (dirname scene_L8)
      (fst (splitext ''B5.TIF'') @ infix_str scene_L8 @ snd (splitext ''B5.TIF'')) = ''/data/LC8/B5.TIF'' \<and>
    files world_example ''/data/LC8/B5.TIF'' = Some ds_one"
    using pa lk by (simp add: upper_labels L8_fields example_files)
  have h1': "''5'' \<noteq> ''s'' \<and> upper ''5'' \<in> set (permissiblebands ?s1) \<and>
    lookup2 (meta ?s1) ''PRODUCT_METADATA''
      (band_keyname (newmetaformat ?s1) (upper ''5'')) = Inr (MStr ''B5.TIF'') \<and>
    path_join (dirname ?s1)
      (fst (splitext ''B5.TIF'') @ infix_str ?s1 @ snd (splitext ''B5.TIF'')) = ''/data/LC8/B5.TIF'' \<and>
    files ?w1 ''/data/LC8/B5.TIF'' = Some ds_one"
    using pa1 lk by (simp add: upper_labels L8_fields example_files)
  have u: "upper (snd (snd (partition_str (lower ''band5'') ''band''))) = ''5''"
    using lower_band [of "''5''"] partition_band [of "lower ''5''"]
    by (simp add: upper_lower upper_labels)
  have fa: "scene_attribute ?P world_example scene_L8 ''band5'' = (Inr (VBand ?b0), ?s1, ?w1)"
    using first_access_eq by (simp add: first_access_def)
  have h2: "scene_attribute ?P world_example scene_L8 ''band5'' = (Inr (VBand ?b0), ?s1, ?w1) \<and>
      ''5'' = upper (snd (snd (partition_str (lower ''band5'') ''band'')))"
    using fa u by simp
  note t1 = band_access_constructs [where X = "''5''" and s = scene_L8 and fn = "''B5.TIF''"
      and p = "''/data/LC8/B5.TIF''" and w = world_example and d = ds_one and P = ?P
      and lu = lu_example and n = 1 and name = "''band5''" and b = ?b0 and l = "''5''"
      and s' = ?s1 and w' = ?w1]
  note t2 = band_access_constructs [where X = "''5''" and s = ?s1 and fn = "''B5.TIF''"
      and p = "''/data/LC8/B5.TIF''" and w = ?w1 and d = ds_one and P = ?P]
  from t1 h1 have c1: "scene_attribute ?P world_example scene_L8 (''band'' @ ''5'') =
        (Inr (VBand (new_band ds_one ''/data/LC8/B5.TIF'' (upper ''5'') (scene_attrs.truncate scene_L8)
           (nextid world_example))),
         scene_L8\<lparr>bands := (bands scene_L8)(upper ''5'' \<mapsto>
           new_band ds_one ''/data/LC8/B5.TIF'' (upper ''5'') (scene_attrs.truncate scene_L8)
             (nextid world_example))\<rparr>,
         world_example\<lparr>nextid := nextid world_example + 1\<rparr>)"
    by blast
  from t1 h2 have c2: "\<exists>fn d. lookup2 (meta scene_L8) ''PRODUCT_METADATA''
                (band_keyname (newmetaformat scene_L8) ''5'') = Inr (MStr fn) \<and>
         files world_example
           (path_join (dirname scene_L8) (fst (splitext fn) @ infix_str scene_L8 @ snd (splitext fn))) =
           Some d \<and>
         ?b0 = new_band d
             (path_join (dirname scene_L8) (fst (splitext fn) @ infix_str scene_L8 @ snd (splitext fn)))
             ''5'' (scene_attrs.truncate scene_L8) (nextid world_example)"
    by blast
  from t2 h1' have c3: "scene_attribute ?P ?w1 ?s1 (''band'' @ ''5'') =
        (Inr (VBand (new_band ds_one ''/data/LC8/B5.TIF'' (upper ''5'') (scene_attrs.truncate ?s1)
           (nextid ?w1))),
         ?s1\<lparr>bands := (bands ?s1)(upper ''5'' \<mapsto>
           new_band ds_one ''/data/LC8/B5.TIF'' (upper ''5'') (scene_attrs.truncate ?s1)
             (nextid ?w1))\<rparr>,
         ?w1\<lparr>nextid := nextid ?w1 + 1\<rparr>)"
    by blast
  have e1: "scene_attribute ?P world_example scene_L8 ''band5'' = (Inr (VBand ?b0), ?s1, ?w1)"
    using c1 by (simp add: upper_labels L8_fields)
  have e3: "scene_attribute ?P (snd (snd first_access)) (fst (snd first_access)) ''band5'' =
     (Inr (VBand (new_band ds_one ''/data/LC8/B5.TIF'' ''5'' (scene_attrs.truncate scene_L8) 1)),
      scene_L8\<lparr>bands := (bands scene_L8)(''5'' \<mapsto>
         new_band ds_one ''/data/LC8/B5.TIF'' ''5'' (scene_attrs.truncate scene_L8) 1)\<rparr>,
      world_example\<lparr>nextid := 2\<rparr>)"
    using c3 by (simp add: upper_labels first_access_eq numeral_2_eq_2)
  from e1 c2 e3 show ?thesis by blast
qed

lemma L7_perm:
  "''6L'' \<in> set (permissiblebands scene_L7)" "''6H'' \<in> set (permissiblebands scene_L7)"
  "''6L'' \<in> set (permissiblebands scene_L7_vcid)"
  "\<not> newmetaformat scene_L7" "newmetaformat scene_L7_vcid"
  "dirname scene_L7 = ''/data/LE7''" "infix_str scene_L7 = []" "meta scene_L7 \<noteq> []"
  by (simp_all add: scene_L7_def scene_L7_vcid_def)

lemma L7_lookup:
  "lookup2 (meta scene_L7) ''PRODUCT_METADATA'' ''BAND61_FILE_NAME'' = Inl (KeyError ''BAND61_FILE_NAME'')"
  "lookup2 (meta scene_L7) ''PRODUCT_METADATA'' ''BAND62_FILE_NAME'' = Inr (MStr ''B62.TIF'')"
  "lookup2 (meta scene_L7) ''PRODUCT_METADATA'' ''BAND1_FILE_NAME'' = Inr (MStr ''B10.TIF'')"
  "lookup2 (meta scene_L7_vcid) ''PRODUCT_METADATA'' ''FILE_NAME_BAND_6_VCID_1'' =
     Inl (KeyError ''FILE_NAME_BAND_6_VCID_1'')"
  "lookup2 (meta scene_L7_vcid) ''PRODUCT_METADATA'' ''FILE_NAME_BAND__VCID_1'' = Inr (MStr ''B62.TIF'')"
  by (simp_all add: scene_L7_def scene_L7_vcid_def lookup2_def)

theorem band6_keys_witness:
  "scene_attribute (properties lu_example 1) world_example scene_L7 ''band6L'' =
     (Inl (KeyError ''BAND61_FILE_NAME''), scene_L7, world_example) \<and>
   scene_attribute (properties lu_example 1) world_example scene_L7 ''band6H'' =
     (Inr (VBand (new_band ds_one ''/data/LE7/B62.TIF'' ''6H'' (scene_attrs.truncate scene_L7) 0)),
      scene_L7\<lparr>bands := (bands scene_L7)(''6H'' \<mapsto>
         new_band ds_one ''/data/LE7/B62.TIF'' ''6H'' (scene_attrs.truncate scene_L7) 0)\<rparr>,
      world_example\<lparr>nextid := 1\<rparr>)"
proof -
  have p: "path_join (dirname scene_L7)
      (fst (splitext ''B62.TIF'') @ infix_str scene_L7 @ snd (splitext ''B62.TIF'')) = ''/data/LE7/B62.TIF''"
    by (simp add: L7_perm splitext_names path_join_def startswith_def endswith_def)
  have n: "nextid world_example = 0" by (simp add: world_example_def)
  have o: "open_band world_example scene_L7 ''6H'' (MStr ''B62.TIF'') =
     (Inr (VBand (new_band ds_one ''/data/LE7/B62.TIF'' ''6H'' (scene_attrs.truncate scene_L7) 0)),
      scene_L7\<lparr>bands := (bands scene_L7)(''6H'' \<mapsto>
         new_band ds_one ''/data/LE7/B62.TIF'' ''6H'' (scene_attrs.truncate scene_L7) 0)\<rparr>,
      world_example\<lparr>nextid := 1\<rparr>)"
    using open_band_found [OF p example_files(4) L7_perm(8), of "''6H''"] by (simp add: n)
  from band6_keys [of scene_L7 "properties lu_example 1" world_example] show ?thesis
    by (simp add: L7_perm L7_lookup o)
qed

text \<open>
  Claim C1 as stated fails: a new-format Landsat 7 scene whose metadata names a file under
  \<^verbatim>\<open>FILE_NAME_BAND__VCID_1\<close> does not resolve \<^verbatim>\<open>band6L\<close> (the key read is
  \<^verbatim>\<open>FILE_NAME_BAND_6_VCID_1\<close>), and a legacy scene does not read \<^verbatim>\<open>BAND1_FILE_NAME\<close>, which is
  the key of band 1 (the key read is \<^verbatim>\<open>BAND61_FILE_NAME\<close>).
\<close>

theorem band6_keys_counterexample:
  "lookup2 (meta scene_L7_vcid) ''PRODUCT_METADATA'' ''FILE_NAME_BAND__VCID_1'' = Inr (MStr ''B62.TIF'') \<and>
   scene_attribute (properties lu_example 1) world_example scene_L7_vcid ''band6L'' =
     (Inl (KeyError ''FILE_NAME_BAND_6_VCID_1''), scene_L7_vcid, world_example) \<and>
   lookup2 (meta scene_L7) ''PRODUCT_METADATA'' ''BAND1_FILE_NAME'' = Inr (MStr ''B10.TIF'') \<and>
   scene_attribute (properties lu_example 1) world_example scene_L7 ''band6L'' =
     (Inl (KeyError ''BAND61_FILE_NAME''), scene_L7, world_example)"
proof -
  have i: "scene_attribute P w s ''band6L'' = Landsatscene_getattr P w s ''band6L''" for P w s
    using access_band_name [of "''6L''" P w s] by simp
  have g: "Landsatscene_getattr P world_example scene_L7_vcid ''band6L'' =
      resolve_band world_example scene_L7_vcid ''6L''"
    "Landsatscene_getattr P world_example scene_L7 ''band6L'' =
      resolve_band world_example scene_L7 ''6L''" for P
    using getattr_band [of P world_example _ "''6L''"] by (simp_all add: upper_labels L7_perm)
  show ?thesis
    by (simp add: i g resolve_band_def L7_perm keynames L7_lookup)
qed

lemma L8_sel:
  "spacecraft scene_L8 = ''L8''"
  "permissiblebands scene_L8 = [''1'', ''2'', ''3'', ''4'', ''5'', ''6'', ''7'', ''8'', ''9'', ''10'', ''11'']"
  "bands scene_L8 = Map.empty"
  by (simp_all add: scene_L8_def)

theorem unsupported_band_raises_witness:
  "Landsatscene_getattr (properties lu_example 1) world_example scene_L8 ''band99'' =
     (Inl (PygaarstRasterError
        ''Spacecraft L8 does not have a band 99. Permissible band labels are 1, 2, 3, 4, 5, 6, 7, 8, 9, 10, 11.''),
      scene_L8, world_example) \<and>
   scene_attribute (properties lu_example 1) world_example scene_L8 ''band99'' =
     (Inl (PygaarstRasterError
        ''Spacecraft L8 does not have a band 99. Permissible band labels are 1, 2, 3, 4, 5, 6, 7, 8, 9, 10, 11.''),
      scene_L8, world_example)"
  using unsupported_band_raises [of "''99''" scene_L8 "properties lu_example 1" world_example]
  by (simp add: upper_labels L8_sel)

subsection \<open>NDVI and NBR\<close>



















subsection \<open>GeoTIFF.clone\<close>

lemma splits:
  "path_split ''/data/copy.tif'' = (''/data'', ''copy.tif'')"
  "path_split ''/nodir/copy.tif'' = (''/nodir'', ''copy.tif'')"
  "path_split ''out'' = ([], ''out'')"
  by (simp_all add: path_split_def rfind_def rstrip_def Let_def)

lemma example_dirs:
  "isdir world_example ''/data''" "\<not> isdir world_example ''/nodir''"
  "isdir world_example ''out''" "\<not> isdir world_example ''/data/copy.tif''"
  "\<not> isdir world_example ''/nodir/copy.tif''" "log world_example = []"
  by (simp_all add: world_example_def)

lemma data_tiffs:
  "data tiff_one = \<lparr>shape = [1, 1], dtype = ''uint16'', elems = [7]\<rparr>"
  "data tiff_two = \<lparr>shape = [2, 1, 1], dtype = ''uint8'', elems = [7, 9]\<rparr>"
  by (simp_all add: data_def tiff_one_def tiff_two_def geotiff_of_def ds_one_def ds_two_def
      ReadAsArray_def typecode_name_def)

lemma shapes:
  "shape_differs array_one (data tiff_one) = Inr False"
  "shape_differs array_two (data tiff_two) = Inr False"
  "shape_differs array_half (data tiff_two) = Inr False"
  "shape_differs array_wide (data tiff_one) = Inr True"
  by (simp_all add: shape_differs_def data_tiffs array_one_def array_two_def array_half_def
      array_wide_def)

lemma dtypes:
  "map_of NPDTYPE2GDALTYPECODE (dtype array_one) = Some 2"
  "map_of NPDTYPE2GDALTYPECODE (dtype array_two) = Some 1"
  "map_of NPDTYPE2GDALTYPECODE (dtype array_half) = None"
  by (simp_all add: NPDTYPE2GDALTYPECODE_def array_one_def array_two_def array_half_def)

lemma str_nat_3: "str_nat 3 = ''3''"
  by (simp add: str_nat.simps char_of_eq_iff)

lemma write_two:
  assumes "RasterCount d = 2" and "length (rasters d) = 2"
    and "RasterXSize d = Suc 0" and "RasterYSize d = Suc 0"
  shows "write_bands d array_two [0, Suc 0, 2] = Inl (RuntimeError ''Illegal band #3'')"
  using assms
  by (simp add: gdal_GetRasterBand_def gdal_WriteArray_def band_slice_def array_two_def
      str_nat_3)

lemma tiff_sel:
  "ncol tiff_two = 1" "nrow tiff_two = 1" "Projection (dataobj tiff_two) = ''UTM6N''"
  "gtr tiff_two = (500000, 30, 0, 7000000, 0, - 30)"
  "ncol tiff_one = 1" "nrow tiff_one = 1" "Projection (dataobj tiff_one) = ''UTM6N''"
  "gtr tiff_one = (500000, 30, 0, 7000000, 0, - 30)"
  by (simp_all add: tiff_one_def tiff_two_def geotiff_of_def ds_one_def ds_two_def)

lemma array_sel:
  "length (shape array_two) = 3" "hd (shape array_two) = 2"
  "length (shape array_one) = 2" "length (shape array_half) = 3"
  by (simp_all add: array_two_def array_one_def array_half_def)

lemma upt3: "[0..<3] = [0, Suc 0, 2]"
  by (simp add: upt_rec)

lemma write_one:
  assumes "RasterXSize d = Suc 0" and "RasterYSize d = Suc 0" and "rasters d = [[0]]"
  shows "gdal_WriteArray d (Suc 0) array_one = Inr (d\<lparr>rasters := [[5]]\<rparr>)"
  using assms by (simp add: gdal_WriteArray_def write_block_def array_one_def)

text \<open>
  A one-band raster cloned with a one-band array: the new file has the source's
  georeference and projection and the new sample, and the accessor over it is returned.
\<close>

lemma clone_single_band:
  "fst (clone world_example tiff_one ''/data/copy.tif'' array_one) =
     Inr (geotiff_of
            \<lparr>RasterXSize = 1, RasterYSize = 1, RasterCount = 1,
             GeoTransform = GeoTransform ds_one, Projection = Projection ds_one,
             DataType = 2, rasters = [[5]]\<rparr> ''/data/copy.tif'')"
proof -
  have c: "gdal_Create world_example ''/data/copy.tif'' (Suc 0) (Suc 0) (Suc 0) 2 =
      Inr (\<lparr>RasterXSize = 1, RasterYSize = 1, RasterCount = 1,
             GeoTransform = (0, 1, 0, 0, 0, 1), Projection = [], DataType = 2,
             rasters = [[0]]\<rparr>,
           world_example\<lparr>files := (files world_example)(''/data/copy.tif'' \<mapsto>
             \<lparr>RasterXSize = 1, RasterYSize = 1, RasterCount = 1,
              GeoTransform = (0, 1, 0, 0, 0, 1), Projection = [], DataType = 2,
              rasters = [[0]]\<rparr>)\<rparr>)"
    by (simp add: gdal_Create_def example_dirs Let_def)
  show ?thesis
    by (simp add: clone_def splits example_dirs shapes dtypes array_sel tiff_sel c Let_def
        gdal_GetRasterBand_def write_one GeoTIFF_init_def gdal_Open_def ds_one_def)
qed

text \<open>
  Claim C3 fails on the code. A two-band raster is cloned to a new path in an existing
  directory, with a two-band array of the same shape and a supported element type, so that
  every validation passes. The write loop runs over \<^verbatim>\<open>range(dims)\<close>, the number of dimensions
  (3), not over the bands (2): its third round asks the new dataset for band 3, which does
  not exist, and \<^verbatim>\<open>clone\<close> ends in the provider's RuntimeError instead of returning an
  accessor.
\<close>

theorem clone_two_bands:
  "fst (clone world_example tiff_two ''/data/copy.tif'' array_two) =
     Inl (RuntimeError ''Illegal band #3'')"
proof -
  have c: "gdal_Create world_example ''/data/copy.tif'' (Suc 0) (Suc 0) 2 (Suc 0) =
      Inr (\<lparr>RasterXSize = 1, RasterYSize = 1, RasterCount = 2,
             GeoTransform = (0, 1, 0, 0, 0, 1), Projection = [], DataType = 1,
             rasters = [[0], [0]]\<rparr>,
           world_example\<lparr>files := (files world_example)(''/data/copy.tif'' \<mapsto>
             \<lparr>RasterXSize = 1, RasterYSize = 1, RasterCount = 2,
              GeoTransform = (0, 1, 0, 0, 0, 1), Projection = [], DataType = 1,
              rasters = [[0], [0]]\<rparr>)\<rparr>)"
    by (simp add: gdal_Create_def example_dirs Let_def numeral_2_eq_2)
  show ?thesis
    by (simp add: clone_def splits example_dirs shapes dtypes array_sel tiff_sel c upt3 write_two
        Let_def del: write_bands.simps)
qed

text \<open>
  Claim C4 as stated fails for a destination that is an existing directory: \<^verbatim>\<open>clone\<close> logs
  a warning and goes on. With an array that passes the other validations the call
  reaches the raster provider, whose error is the one raised; with an array of the wrong
  shape the error raised is the shape error.
\<close>

theorem clone_directory_counterexample:
  "clone world_example tiff_one ''out'' array_one =
     (Inl (RuntimeError ''out: Is a directory''),
      world_example\<lparr>log := [(WARNING,
        ''%s is a directory. Choose a name that is suitable to writing a dataset to.'')]\<rparr>) \<and>
   clone world_example tiff_one ''out'' array_wide =
     (Inl (PygaarstRasterError ''New and cloned GeoTIFF dataset must be the same shape.''),
      world_example\<lparr>log := [(WARNING,
        ''%s is a directory. Choose a name that is suitable to writing a dataset to.'')]\<rparr>)"
proof -
  let ?w1 = "world_example\<lparr>log := [(WARNING,
        ''%s is a directory. Choose a name that is suitable to writing a dataset to.'')]\<rparr>"
  have c: "gdal_Create ?w1 ''out'' (Suc 0) (Suc 0) (Suc 0) 2 = Inl (RuntimeError ''out: Is a directory'')"
    by (simp add: gdal_Create_def example_dirs)
  show ?thesis
    by (simp add: clone_def splits example_dirs shapes dtypes array_sel tiff_sel c logging_def
        Let_def)
qed

lemma write_bands_error:
  "write_bands d a idxs = Inl e \<Longrightarrow> e \<noteq> PygaarstRasterError m"
proof (induction idxs arbitrary: d)
  case Nil
  then show ?case by simp
next
  case (Cons idx idxs)
  then show ?case
    by (auto simp add: gdal_GetRasterBand_def gdal_WriteArray_def split: if_splits sum.splits)
qed

lemma GeoTIFF_init_log: "\<exists>rest. log (snd (GeoTIFF_init w p)) = log w @ rest"
  by (simp add: GeoTIFF_init_def logging_def split: sum.splits)

lemma GeoTIFF_init_error: "fst (GeoTIFF_init w p) = Inl e \<Longrightarrow> e \<noteq> PygaarstRasterError m"
  by (auto simp add: GeoTIFF_init_def gdal_Open_def split: sum.splits option.splits)

lemma shape_differs_error: "shape_differs a b = Inl e \<Longrightarrow> e \<noteq> PygaarstRasterError m"
  by (auto simp add: shape_differs_def split: if_splits list.splits)

lemma dtype_dom:
  "(map_of NPDTYPE2GDALTYPECODE n \<noteq> None) =
   (n \<in> set [''uint8'', ''int8'', ''uint16'', ''int16'', ''uint32'', ''int32'', ''float32'',
              ''float64'', ''complex64'', ''complex128''])"
  by (simp add: NPDTYPE2GDALTYPECODE_def)

lemma clone_missing_dir:
  assumes "fst (path_split newpath) \<noteq> []" and "\<not> isdir w (fst (path_split newpath))"
  shows "clone w self newpath newdata =
     (Inl (PygaarstRasterError
        (fst (path_split newpath) @ '' is not a valid directory to save file to '')), w)"
  using assms by (simp add: clone_def Let_def)

lemma clone_no_dtype_files:
  assumes "map_of NPDTYPE2GDALTYPECODE (dtype newdata) = None"
  shows "files (snd (clone w self newpath newdata)) = files w \<and>
         (\<exists>e. fst (clone w self newpath newdata) = Inl e)"
  using assms
  by (simp add: clone_def Let_def logging_def split: sum.splits bool.splits)

lemma clone_no_dtype_error:
  assumes "map_of NPDTYPE2GDALTYPECODE (dtype newdata) = None"
    and "fst (path_split newpath) = [] \<or> isdir w (fst (path_split newpath))"
    and "shape_differs newdata (data self) = Inr False"
    and "2 \<le> length (shape newdata)"
  shows "fst (clone w self newpath newdata) =
     Inl (PygaarstRasterError
       (''Data type in array cannot be converted to GDAL data type: '' @
        [CHR 0x0A, CHR 0x27] @ dtype newdata @ [CHR 0x27]))"
  using assms
  by (auto simp add: clone_def Let_def)

lemma clone_directory_warns:
  assumes "fst (path_split newpath) = [] \<or> isdir w (fst (path_split newpath))"
    and "isdir w newpath"
  shows "(\<exists>rest. log (snd (clone w self newpath newdata)) =
            log w @ (WARNING,
              ''%s is a directory. Choose a name that is suitable to writing a dataset to.'') # rest) \<and>
         (\<forall>m. fst (clone w self newpath newdata) = Inl (PygaarstRasterError m) \<longrightarrow>
            m = ''New and cloned GeoTIFF dataset must be the same shape.'' \<or>
            m = ''New data array has only '' @ str_nat (length (shape newdata)) @ '' dimensions.'' \<or>
            m = ''Data type in array cannot be converted to GDAL data type: '' @
                [CHR 0x0A, CHR 0x27] @ dtype newdata @ [CHR 0x27])"
proof -
  let ?w1 = "logging WARNING
     ''%s is a directory. Choose a name that is suitable to writing a dataset to.'' w"
  have d: "isdir ?w1 newpath" using assms(2) by (simp add: logging_def)
  have c: "\<And>x y b t. gdal_Create ?w1 newpath x y b t = Inl (RuntimeError (newpath @ '': Is a directory''))"
    using d by (simp add: gdal_Create_def)
  have l: "log ?w1 = log w @ [(WARNING,
     ''%s is a directory. Choose a name that is suitable to writing a dataset to.'')]"
    by (simp add: logging_def)
  have 1: "snd (clone w self newpath newdata) = ?w1"
    using assms
    by (auto simp add: clone_def Let_def c split: sum.splits bool.splits option.splits)
  have 2: "\<forall>m. fst (clone w self newpath newdata) = Inl (PygaarstRasterError m) \<longrightarrow>
            m = ''New and cloned GeoTIFF dataset must be the same shape.'' \<or>
            m = ''New data array has only '' @ str_nat (length (shape newdata)) @ '' dimensions.'' \<or>
            m = ''Data type in array cannot be converted to GDAL data type: '' @
                [CHR 0x0A, CHR 0x27] @ dtype newdata @ [CHR 0x27]"
    using assms
    by (auto simp add: clone_def Let_def c split: sum.splits bool.splits option.splits
        dest: shape_differs_error)
  from 1 l 2 show ?thesis by simp
qed

text \<open>
  Claim C4, as amended. When the directory part of the new path is not empty and is not
  an existing directory, \<^verbatim>\<open>clone\<close> raises a PygaarstRasterError that names it, and changes
  nothing. When the new path itself is an existing directory (its directory part being
  acceptable), \<^verbatim>\<open>clone\<close> appends a warning to the log and continues: a PygaarstRasterError
  it raises then is that of a later validation (shape, dimensions or element type), never
  one about the destination.
\<close>

theorem clone_destination:
  "(fst (path_split newpath) \<noteq> [] \<and> \<not> isdir w (fst (path_split newpath)) \<longrightarrow>
      clone w self newpath newdata =
        (Inl (PygaarstRasterError
           (fst (path_split newpath) @ '' is not a valid directory to save file to '')), w))
   \<and> ((fst (path_split newpath) = [] \<or> isdir w (fst (path_split newpath))) \<and> isdir w newpath \<longrightarrow>
      (\<exists>rest. log (snd (clone w self newpath newdata)) =
            log w @ (WARNING,
              ''%s is a directory. Choose a name that is suitable to writing a dataset to.'') # rest) \<and>
      (\<forall>m. fst (clone w self newpath newdata) = Inl (PygaarstRasterError m) \<longrightarrow>
            m = ''New and cloned GeoTIFF dataset must be the same shape.'' \<or>
            m = ''New data array has only '' @ str_nat (length (shape newdata)) @ '' dimensions.'' \<or>
            m = ''Data type in array cannot be converted to GDAL data type: '' @
                [CHR 0x0A, CHR 0x27] @ dtype newdata @ [CHR 0x27]))"
  using clone_missing_dir [of newpath w self newdata] clone_directory_warns [of newpath w self newdata]
  by blast

theorem clone_destination_witness:
  "clone world_example tiff_two ''/nodir/copy.tif'' array_two =
     (Inl (PygaarstRasterError ''/nodir is not a valid directory to save file to ''), world_example) \<and>
   (\<exists>rest. log (snd (clone world_example tiff_one ''out'' array_one)) =
      (WARNING, ''%s is a directory. Choose a name that is suitable to writing a dataset to.'') # rest)"
  using clone_destination [of "''/nodir/copy.tif''" world_example tiff_two array_two]
    clone_destination [of "''out''" world_example tiff_one array_one]
  by (simp add: splits example_dirs)

text \<open>
  Claim C5. The element types \<^verbatim>\<open>clone\<close> supports are exactly the ten names of its table
  (8, 16 and 32-bit integers, signed and unsigned, 32 and 64-bit floats, 64 and 128-bit
  complex numbers). For an array whose element type is not among them, \<^verbatim>\<open>clone\<close> always ends
  in an error and leaves the files on disk as they were, so that nothing is created at
  the destination; and when the element type is the only fault (the destination's
  directory part is empty or an existing directory, the shape matches and the array has
  at least two dimensions), the error is the PygaarstRasterError whose message says that
  the data type cannot be converted and quotes the name of the type.
\<close>

theorem clone_unsupported_dtype:
  "((map_of NPDTYPE2GDALTYPECODE n \<noteq> None) =
    (n \<in> set [''uint8'', ''int8'', ''uint16'', ''int16'', ''uint32'', ''int32'', ''float32'',
               ''float64'', ''complex64'', ''complex128'']))
   \<and> (map_of NPDTYPE2GDALTYPECODE (dtype newdata) = None \<longrightarrow>
      files (snd (clone w self newpath newdata)) = files w \<and>
      (\<exists>e. fst (clone w self newpath newdata) = Inl e))
   \<and> (map_of NPDTYPE2GDALTYPECODE (dtype newdata) = None \<and>
       (fst (path_split newpath) = [] \<or> isdir w (fst (path_split newpath))) \<and>
       shape_differs newdata (data self) = Inr False \<and> 2 \<le> length (shape newdata) \<longrightarrow>
      fst (clone w self newpath newdata) =
        Inl (PygaarstRasterError
          (''Data type in array cannot be converted to GDAL data type: '' @
           [CHR 0x0A, CHR 0x27] @ dtype newdata @ [CHR 0x27])))"
  using dtype_dom [of n] clone_no_dtype_files [of newdata w self newpath]
    clone_no_dtype_error [of newdata newpath w self]
  by blast

theorem clone_unsupported_dtype_witness:
  "fst (clone world_example tiff_two ''/data/copy.tif'' array_half) =
     Inl (PygaarstRasterError
       (''Data type in array cannot be converted to GDAL data type: '' @
        [CHR 0x0A, CHR 0x27] @ ''float16'' @ [CHR 0x27])) \<and>
   files (snd (clone world_example tiff_two ''/data/copy.tif'' array_half)) = files world_example"
proof -
  have d: "dtype array_half = ''float16''" by (simp add: array_half_def)
  from clone_unsupported_dtype [of "''float16''" array_half world_example tiff_two "''/data/copy.tif''"]
  show ?thesis
    by (simp add: dtypes shapes splits example_dirs array_sel d)
qed

end
